theory Spec2Isabelle
  imports Main "HOL-Library.Word"
begin

section \<open>JavaScript values used by App.js\<close>

text \<open>
  A JavaScript string is a sequence of UTF-16 code units. All the characters the
  program inspects (white space, line terminators, the space and the brackets of the
  sentence pattern) are single code units, so the string operations are modelled on
  lists of 16-bit words. \<open>lit\<close> turns an ASCII literal into its code units.
\<close>

type_synonym jschar = "16 word"
type_synonym jsstring = "jschar list"

definition lit :: "string \<Rightarrow> jsstring" where
  "lit s = map of_char s"

text \<open>
  The numbers of the program are the sentence count and the sentence index.
  \<open>parseInt\<close> yields an integer or \<open>NaN\<close>; every comparison with \<open>NaN\<close> is false
  and arithmetic on \<open>NaN\<close> gives \<open>NaN\<close>. (Integers are exact here; JavaScript rounds
  beyond \<open>2^53\<close>.)
\<close>

datatype jsnum = Num int | NaN

fun js_le :: "jsnum \<Rightarrow> jsnum \<Rightarrow> bool" where
  "js_le (Num a) (Num b) = (a \<le> b)"
| "js_le _ _ = False"

fun js_lt :: "jsnum \<Rightarrow> jsnum \<Rightarrow> bool" where
  "js_lt (Num a) (Num b) = (a < b)"
| "js_lt _ _ = False"

fun js_sub :: "jsnum \<Rightarrow> jsnum \<Rightarrow> jsnum" where
  "js_sub (Num a) (Num b) = Num (a - b)"
| "js_sub _ _ = NaN"

subsection \<open>Number to string (template literals)\<close>

definition digit_char :: "nat \<Rightarrow> jschar" where
  "digit_char d = of_nat (48 + d)"

fun show_nat :: "nat \<Rightarrow> jsstring" where
  "show_nat n = (if n < 10 then [digit_char n] else show_nat (n div 10) @ [digit_char (n mod 10)])"

text \<open>\<open>`${n}`\<close> for an integer or \<open>NaN\<close> (decimal notation; below \<open>10^21\<close> in JavaScript).\<close>

fun show_num :: "jsnum \<Rightarrow> jsstring" where
  "show_num NaN = lit ''NaN''"
| "show_num (Num i) = (if i < 0 then lit ''-'' @ show_nat (nat (- i)) else show_nat (nat i))"

subsection \<open>\<open>String.prototype.trim\<close>, \<open>split('\\n')\<close>, \<open>join(', ')\<close>\<close>

text \<open>Line terminators of ECMAScript: LF, CR, U+2028, U+2029. The regular
  expression's \<open>.\<close> matches every code unit but these.\<close>

definition is_lt :: "jschar \<Rightarrow> bool" where
  "is_lt c = (c = 0x0A \<or> c = 0x0D \<or> c = 0x2028 \<or> c = 0x2029)"

text \<open>What \<open>trim\<close> strips: ECMAScript WhiteSpace and LineTerminator.\<close>

definition is_ws :: "jschar \<Rightarrow> bool" where
  "is_ws c = (c = 0x09 \<or> c = 0x0B \<or> c = 0x0C \<or> c = 0x20 \<or> c = 0xA0 \<or> c = 0x1680
     \<or> (0x2000 \<le> c \<and> c \<le> 0x200A) \<or> c = 0x202F \<or> c = 0x205F \<or> c = 0x3000
     \<or> c = 0xFEFF \<or> is_lt c)"

definition trim :: "jsstring \<Rightarrow> jsstring" where
  "trim s = rev (dropWhile is_ws (rev (dropWhile is_ws s)))"

text \<open>\<open>s.split('\\n')\<close>: the empty string gives one empty line.\<close>

fun split_nl :: "jsstring \<Rightarrow> jsstring list" where
  "split_nl [] = [[]]"
| "split_nl (c # cs) =
     (if c = 0x0A then [] # split_nl cs
      else (case split_nl cs of [] \<Rightarrow> [[c]] | l # ls \<Rightarrow> (c # l) # ls))"

fun join_comma :: "jsstring list \<Rightarrow> jsstring" where
  "join_comma [] = []"
| "join_comma [x] = x"
| "join_comma (x # y # ys) = x @ lit '', '' @ join_comma (y # ys)"

text \<open>\<open>parseInt(v)\<close> with no radix: leading white space and one sign are skipped, a
  \<open>0x\<close> prefix selects radix 16, the longest prefix of digits is read, and no digit at
  all gives \<open>NaN\<close>.\<close>

definition digit_val :: "nat \<Rightarrow> jschar \<Rightarrow> nat option" where
  "digit_val radix c =
     (let v = (if 0x30 \<le> c \<and> c \<le> 0x39 then Some (unat c - 0x30)
               else if 0x61 \<le> c \<and> c \<le> 0x7A then Some (unat c - 0x61 + 10)
               else if 0x41 \<le> c \<and> c \<le> 0x5A then Some (unat c - 0x41 + 10)
               else None)
      in case v of None \<Rightarrow> None | Some d \<Rightarrow> if d < radix then Some d else None)"

fun read_digits :: "nat \<Rightarrow> jsstring \<Rightarrow> nat option \<Rightarrow> nat option" where
  "read_digits radix [] acc = acc"
| "read_digits radix (c # cs) acc =
     (case digit_val radix c of
        None \<Rightarrow> acc
      | Some d \<Rightarrow> read_digits radix cs (Some ((case acc of None \<Rightarrow> 0 | Some a \<Rightarrow> a) * radix + d)))"

definition parseInt :: "jsstring \<Rightarrow> jsnum" where
  "parseInt v =
     (let s = dropWhile is_ws v;
          neg = (s \<noteq> [] \<and> hd s = 0x2D);
          s1 = (if s \<noteq> [] \<and> (hd s = 0x2D \<or> hd s = 0x2B) then tl s else s);
          hex = (take 2 s1 = lit ''0x'' \<or> take 2 s1 = lit ''0X'');
          radix = (if hex then 16 else 10);
          s2 = (if hex then drop 2 s1 else s1)
      in case read_digits radix s2 None of
           None \<Rightarrow> NaN
         | Some n \<Rightarrow> Num (if neg then - int n else int n))"

subsection \<open>\<open>Array.prototype.slice(0, n)\<close>\<close>

text \<open>The end index is \<open>ToIntegerOrInfinity(n)\<close>: \<open>NaN\<close> becomes 0, a negative end
  counts from the length (not below 0), a larger end is cut to the length.\<close>

fun slice0 :: "'a list \<Rightarrow> jsnum \<Rightarrow> 'a list" where
  "slice0 xs NaN = []"
| "slice0 xs (Num k) = (if k < 0 then take (nat (int (length xs) + k)) xs else take (nat k) xs)"

section \<open>The sentence pattern\<close>

text \<open>
  \<open>line.match(/(.*) \\[(.*?)\\]$/)\<close>, as the backtracking matcher runs it.
  \<^item> \<open>lazy_tag\<close> is \<open>(.*?)\\]$\<close>: the lazy group first tries to stop, which needs
    \<open>]\<close> followed by the end of the input, and otherwise takes one more code unit that
    is not a line terminator.
  \<^item> \<open>after_text\<close> is \<open> \\[(.*?)\\]$\<close>: a space, an opening bracket, then \<open>lazy_tag\<close>.
  \<^item> \<open>greedy_text\<close> is the whole pattern at a fixed start: the greedy group first takes
    one more code unit, and gives it back only when the rest fails.
  \<^item> \<open>match_line\<close> tries the start positions from left to right (the pattern has no
    \<open>^\<close>) and returns the captures \<open>match[1]\<close> and \<open>match[2]\<close> of the first success.
\<close>

fun lazy_tag :: "jsstring \<Rightarrow> jsstring option" where
  "lazy_tag [] = None"
| "lazy_tag (c # cs) =
     (if c = 0x5D \<and> cs = [] then Some []
      else if is_lt c then None
      else map_option (Cons c) (lazy_tag cs))"

fun after_text :: "jsstring \<Rightarrow> jsstring option" where
  "after_text (a # b # r) = (if a = 0x20 \<and> b = 0x5B then lazy_tag r else None)"
| "after_text _ = None"

fun greedy_text :: "jsstring \<Rightarrow> (jsstring \<times> jsstring) option" where
  "greedy_text [] = map_option (Pair []) (after_text [])"
| "greedy_text (c # cs) =
     (if is_lt c then map_option (Pair []) (after_text (c # cs))
      else (case greedy_text cs of
              Some (g1, g2) \<Rightarrow> Some (c # g1, g2)
            | None \<Rightarrow> map_option (Pair []) (after_text (c # cs))))"

fun match_line :: "jsstring \<Rightarrow> (jsstring \<times> jsstring) option" where
  "match_line [] = greedy_text []"
| "match_line (c # cs) =
     (case greedy_text (c # cs) of Some r \<Rightarrow> Some r | None \<Rightarrow> match_line cs)"

section \<open>The text-generation service\<close>

text \<open>
  Both clients POST one prompt and read \<open>result.candidates[0].content.parts[0].text\<close>.
  A response is what the two awaited calls (\<open>fetch\<close>, then \<open>response.json()\<close>) produce:
  a rejection with its \<open>error.message\<close>, a status that is not ok together with
  \<open>errorData.error?.message\<close>, or the parsed body. Optional fields are \<open>option\<close>s; a
  part is represented by its \<open>text\<close>.
\<close>

datatype content = Content (parts: "jsstring list option")
datatype candidate = Candidate (content: "content option")
datatype api_result = ApiResult (candidates: "candidate list option")

datatype http_response =
    FetchFailed jsstring
  | NotOk nat "jsstring option"
  | RespOk api_result

text \<open>The service as the program sees it: the response to the prompt that was sent.\<close>

type_synonym service = "jsstring \<Rightarrow> http_response"

text \<open>The guard \<open>result.candidates && result.candidates.length > 0 && ... &&
  parts.length > 0\<close> and the read of the first part's text.\<close>

definition first_text :: "api_result \<Rightarrow> jsstring option" where
  "first_text res =
     (case candidates res of
        None \<Rightarrow> None
      | Some [] \<Rightarrow> None
      | Some (c # _) \<Rightarrow>
          (case content c of
             None \<Rightarrow> None
           | Some ct \<Rightarrow>
               (case parts ct of
                  None \<Rightarrow> None
                | Some [] \<Rightarrow> None
                | Some (p # _) \<Rightarrow> Some p)))"

text \<open>\<open>`API error: ${response.status} - ${errorData.error?.message || 'Unknown error'}`\<close>\<close>

definition api_error_message :: "nat \<Rightarrow> jsstring option \<Rightarrow> jsstring" where
  "api_error_message status m =
     lit ''API error: '' @ show_nat status @ lit '' - '' @
     (case m of None \<Rightarrow> lit ''Unknown error''
      | Some t \<Rightarrow> if t \<noteq> [] then t else lit ''Unknown error'')"

text \<open>The part of the \<open>try\<close> block the two clients share: \<open>Inl\<close> is the message of the
  error that reaches \<open>catch\<close>, \<open>Inr\<close> the text of the first part. The message thrown for
  an unexpected structure differs between the clients and is a parameter.\<close>

definition response_text :: "jsstring \<Rightarrow> http_response \<Rightarrow> jsstring + jsstring" where
  "response_text unexpected r =
     (case r of
        FetchFailed m \<Rightarrow> Inl m
      | NotOk status m \<Rightarrow> Inl (api_error_message status m)
      | RespOk res \<Rightarrow> (case first_text res of None \<Rightarrow> Inl unexpected | Some t \<Rightarrow> Inr t))"

section \<open>Application state\<close>

datatype page = Start | Practice

record practice_item =
  originalSentence :: jsstring
  userAnswer_item :: jsstring
  geminiReview :: jsstring
  tenseUsed :: jsstring

record parsed =
  sentence :: jsstring
  tense :: jsstring

text \<open>The \<open>useState\<close> cells of \<open>App\<close>. The Firebase cells \<open>userId\<close>, \<open>db\<close> and \<open>auth\<close>
  are only displayed and are left out; \<open>isAuthReady\<close> gates the start button.\<close>

record app_state =
  currentPage :: page
  selectedTenses :: "jsstring list"
  selectedThemes :: jsstring
  numSentences :: jsnum
  currentSentenceIndex :: nat
  sentencesData :: "practice_item list"
  userAnswer :: jsstring
  currentReview :: jsstring
  isLoading :: bool
  errorMessage :: jsstring
  isAuthReady :: bool
  generatedSentencesSet :: "jsstring set"
  showTenseInPractice :: bool

definition initial_state :: app_state where
  "initial_state =
     \<lparr>currentPage = Start, selectedTenses = [], selectedThemes = [], numSentences = Num 5,
      currentSentenceIndex = 0, sentencesData = [], userAnswer = [], currentReview = [],
      isLoading = False, errorMessage = [], isAuthReady = False,
      generatedSentencesSet = {}, showTenseInPractice = True\<rparr>"

section \<open>String constants of the source\<close>

text \<open>The Ukrainian literals of App.js as UTF-16 code units: the pieces of the
  generation prompt (line 130) around \<open>${numberOfSentences}\<close> and \<open>${tensesPrompt}\<close>,
  the theme suffix (line 133), the pieces of the review prompt (line 200) around
  \<open>${originalSentenceUk}\<close> and the two \<open>${userAnswerEn}\<close>, and the four messages of
  the handlers (lines 249, 253, 278, 287).\<close>

definition genPrompt1 :: jsstring where
  "genPrompt1 =
   [1057, 1090, 1074, 1086, 1088, 1080, 32]"

definition genPrompt2 :: jsstring where
  "genPrompt2 =
   [32, 1087, 1088, 1086, 1089, 1090, 1080, 1093, 44, 32, 1091, 1085, 1110, 1082, 1072, 1083,
    1100, 1085, 1080, 1093, 32, 1088, 1077, 1095, 1077, 1085, 1100, 32, 1091, 1082, 1088, 1072,
    1111, 1085, 1089, 1100, 1082, 1086, 1102, 32, 1084, 1086, 1074, 1086, 1102, 46, 32, 1050,
    1086, 1078, 1085, 1077, 32, 1088, 1077, 1095, 1077, 1085, 1085, 1103, 32, 1084, 1072, 1108,
    32, 1074, 1110, 1076, 1087, 1086, 1074, 1110, 1076, 1072, 1090, 1080, 32, 1086, 1076, 1085,
    1086, 1084, 1091, 32, 1079, 32, 1075, 1088, 1072, 1084, 1072, 1090, 1080, 1095, 1085, 1080,
    1093, 32, 1095, 1072, 1089, 1110, 1074, 58, 32]"

definition genPrompt3 :: jsstring where
  "genPrompt3 =
   [46, 32, 1053, 1072, 1076, 1072, 1081, 32, 1083, 1080, 1096, 1077, 32, 1088, 1077, 1095,
    1077, 1085, 1085, 1103, 44, 32, 1082, 1086, 1078, 1085, 1077, 32, 1085, 1072, 32, 1085,
    1086, 1074, 1086, 1084, 1091, 32, 1088, 1103, 1076, 1082, 1091, 44, 32, 1073, 1077, 1079,
    32, 1079, 1072, 1081, 1074, 1086, 1075, 1086, 32, 1090, 1077, 1082, 1089, 1090, 1091, 32,
    1095, 1080, 32, 1085, 1091, 1084, 1077, 1088, 1072, 1094, 1110, 1111, 46, 32, 1050, 1086,
    1078, 1085, 1077, 32, 1088, 1077, 1095, 1077, 1085, 1085, 1103, 32, 1087, 1086, 1074, 1080,
    1085, 1085, 1086, 32, 1073, 1091, 1090, 1080, 32, 1091, 32, 1092, 1086, 1088, 1084, 1072,
    1090, 1110, 32, 34, 1056, 1077, 1095, 1077, 1085, 1085, 1103, 32, 1091, 1082, 1088, 1072,
    1111, 1085, 1089, 1100, 1082, 1086, 1102, 32, 91, 1053, 1072, 1079, 1074, 1072, 32, 1063,
    1072, 1089, 1091, 93, 34, 46, 32, 1053, 1072, 1087, 1088, 1080, 1082, 1083, 1072, 1076, 58,
    32, 34, 1071, 32, 1111, 1084, 32, 1103, 1073, 1083, 1091, 1082, 1086, 46, 32, 91, 80, 114,
    101, 115, 101, 110, 116, 32, 83, 105, 109, 112, 108, 101, 93, 34, 46]"

definition themePrompt1 :: jsstring where
  "themePrompt1 =
   [32, 1058, 1077, 1084, 1072, 32, 1088, 1077, 1095, 1077, 1085, 1100, 58, 32]"

definition themePrompt2 :: jsstring where
  "themePrompt2 =
   [46]"

definition reviewPrompt1 :: jsstring where
  "reviewPrompt1 =
   [1054, 1088, 1080, 1075, 1110, 1085, 1072, 1083, 1100, 1085, 1077, 32, 1088, 1077, 1095,
    1077, 1085, 1085, 1103, 32, 1091, 1082, 1088, 1072, 1111, 1085, 1089, 1100, 1082, 1086,
    1102, 58, 32, 34]"

definition reviewPrompt2 :: jsstring where
  "reviewPrompt2 =
   [34, 46, 32, 1042, 1110, 1076, 1087, 1086, 1074, 1110, 1076, 1100, 32, 1082, 1086, 1088,
    1080, 1089, 1090, 1091, 1074, 1072, 1095, 1072, 32, 1072, 1085, 1075, 1083, 1110, 1081,
    1089, 1100, 1082, 1086, 1102, 58, 32, 34]"

definition reviewPrompt3 :: jsstring where
  "reviewPrompt3 =
   [34, 46, 32, 1053, 1072, 1076, 1072, 1081, 1090, 1077, 32, 1074, 1110, 1076, 1087, 1086,
    1074, 1110, 1076, 1100, 32, 1087, 1086, 32, 1085, 1072, 1089, 1090, 1091, 1087, 1085, 1110,
    1081, 32, 1089, 1090, 1088, 1091, 1082, 1090, 1091, 1088, 1110, 58, 32, 49, 46, 32, 1063,
    1080, 32, 1087, 1088, 1072, 1074, 1080, 1083, 1100, 1085, 1077, 32, 1085, 1072, 1087, 1080,
    1089, 1072, 1085, 1085, 1103, 32, 1088, 1077, 1095, 1077, 1085, 1085, 1103, 40, 1056, 1077,
    1095, 1077, 1085, 1085, 1103, 32, 1085, 1072, 1087, 1080, 1089, 1072, 1085, 1077, 32, 1087,
    1088, 1072, 1074, 1080, 1083, 1100, 1085, 1086, 44, 32, 1056, 1077, 1095, 1077, 1085, 1085,
    1103, 32, 1085, 1072, 1087, 1080, 1089, 1072, 1085, 1077, 32, 1085, 1077, 1087, 1088, 1072,
    1074, 1080, 1083, 1100, 1085, 1086, 44, 32, 1073, 1077, 1079, 32, 1079, 1072, 1081, 1074,
    1080, 1093, 32, 1089, 1083, 1110, 1074, 41, 44, 32, 50, 46, 32, 34]"

definition reviewPrompt4 :: jsstring where
  "reviewPrompt4 =
   [34, 32, 45, 45, 45, 45, 32, 1090, 1091, 1090, 32, 1074, 1072, 1088, 1090, 1086, 32, 1085,
    1072, 1087, 1080, 1089, 1072, 1090, 1080, 32, 1075, 1088, 1072, 1084, 1072, 1090, 1080,
    1095, 1085, 1086, 32, 1087, 1088, 1072, 1074, 1080, 1083, 1100, 1085, 1091, 32, 1074, 1077,
    1088, 1089, 1110, 1102, 32, 1088, 1077, 1095, 1077, 1085, 1085, 1103, 44, 32, 1103, 1082,
    1097, 1086, 32, 1088, 1077, 1095, 1077, 1085, 1085, 1103, 32, 1085, 1072, 1087, 1080, 1089,
    1072, 1085, 1086, 32, 1079, 32, 1087, 1086, 1084, 1080, 1083, 1082, 1086, 1102, 32, 1110,
    32, 1087, 1110, 1076, 1082, 1088, 1077, 1089, 1083, 1080, 1090, 1080, 32, 1074, 1080, 1087,
    1088, 1072, 1074, 1083, 1077, 1085, 1110, 32, 1095, 1072, 1089, 1090, 1080, 1085, 1080, 44,
    32, 51, 32, 1057, 1090, 1080, 1089, 1083, 1086, 32, 1086, 1087, 1080, 1089, 1072, 1090,
    1080, 32, 1087, 1086, 1084, 1080, 1083, 1082, 1080, 32, 1103, 1082, 1097, 1086, 32, 1074,
    1086, 1085, 1080, 32, 1108]"

definition msgNoTense :: jsstring where
  "msgNoTense =
   [1041, 1091, 1076, 1100, 32, 1083, 1072, 1089, 1082, 1072, 44, 32, 1086, 1073, 1077, 1088,
    1110, 1090, 1100, 32, 1093, 1086, 1095, 1072, 32, 1073, 32, 1086, 1076, 1080, 1085, 32,
    1095, 1072, 1089, 32, 1076, 1083, 1103, 32, 1087, 1088, 1072, 1082, 1090, 1080, 1082, 1080,
    46]"

definition msgCount :: jsstring where
  "msgCount =
   [1050, 1110, 1083, 1100, 1082, 1110, 1089, 1090, 1100, 32, 1088, 1077, 1095, 1077, 1085,
    1100, 32, 1084, 1072, 1108, 32, 1073, 1091, 1090, 1080, 32, 1073, 1110, 1083, 1100, 1096,
    1086, 1102, 32, 1079, 1072, 32, 1085, 1091, 1083, 1100, 46]"

definition msgNoSentences :: jsstring where
  "msgNoSentences =
   [1053, 1077, 32, 1074, 1076, 1072, 1083, 1086, 1089, 1103, 32, 1079, 1075, 1077, 1085, 1077,
    1088, 1091, 1074, 1072, 1090, 1080, 32, 1088, 1077, 1095, 1077, 1085, 1085, 1103, 46, 32,
    1057, 1087, 1088, 1086, 1073, 1091, 1081, 1090, 1077, 32, 1079, 1084, 1110, 1085, 1080,
    1090, 1080, 32, 1082, 1088, 1080, 1090, 1077, 1088, 1110, 1111, 46]"

definition msgNoAnswer :: jsstring where
  "msgNoAnswer =
   [1041, 1091, 1076, 1100, 32, 1083, 1072, 1089, 1082, 1072, 44, 32, 1074, 1074, 1077, 1076,
    1110, 1090, 1100, 32, 1074, 1072, 1096, 1091, 32, 1074, 1110, 1076, 1087, 1086, 1074, 1110,
    1076, 1100, 46]"

section \<open>Sentence Generation Client\<close>

text \<open>\<open>tenses.length > 0 ? tenses : ["Present Simple"]\<close>\<close>

definition chosenTenses :: "jsstring list \<Rightarrow> jsstring list" where
  "chosenTenses tenses = (if length tenses > 0 then tenses else [lit ''Present Simple''])"

text \<open>The prompt of \<open>generateSentences\<close>; the theme suffix is added when \<open>themes\<close> is
  truthy, that is not the empty string.\<close>

definition gen_prompt :: "jsstring list \<Rightarrow> jsstring \<Rightarrow> jsnum \<Rightarrow> jsstring" where
  "gen_prompt chosen themes numberOfSentences =
     genPrompt1 @ show_num numberOfSentences @ genPrompt2 @ join_comma chosen @ genPrompt3 @
     (if themes \<noteq> [] then themePrompt1 @ themes @ themePrompt2 else [])"

text \<open>The \<open>for\<close> loop over the lines (lines 164-178): \<open>used\<close> is the set
  \<open>usedSentences\<close>, which the loop mutates, and \<open>acc\<close> is \<open>parsedSentences\<close>.\<close>

fun parse_lines :: "jsstring list \<Rightarrow> jsstring set \<Rightarrow> parsed list \<Rightarrow> parsed list \<times> jsstring set" where
  "parse_lines [] used acc = (acc, used)"
| "parse_lines (line # rest) used acc =
     (case match_line line of
        Some (g1, g2) \<Rightarrow>
          (let sentenceText = trim g1; tenseText = trim g2
           in if sentenceText \<notin> used
              then parse_lines rest (insert sentenceText used)
                     (acc @ [\<lparr>sentence = sentenceText, tense = tenseText\<rparr>])
              else parse_lines rest used acc)
      | None \<Rightarrow> parse_lines rest used acc)"

text \<open>\<open>generateSentences\<close> returns the value of the call (\<open>None\<close> is \<open>null\<close>), the set
  \<open>usedSentences\<close> after the call, the state after its \<open>setIsLoading\<close> and
  \<open>setErrorMessage\<close> calls, and the prompts it has sent to the service.\<close>

definition generateSentences ::
  "service \<Rightarrow> jsstring list \<Rightarrow> jsstring \<Rightarrow> jsnum \<Rightarrow> jsstring set \<Rightarrow> app_state
     \<Rightarrow> parsed list option \<times> jsstring set \<times> app_state \<times> jsstring list" where
  "generateSentences fetch tenses themes numberOfSentences usedSentences s =
     (let s1 = s\<lparr>isLoading := True, errorMessage := []\<rparr>;
          prompt = gen_prompt (chosenTenses tenses) themes numberOfSentences
      in case response_text
                (lit ''Unexpected response structure from Gemini or no content generated.'')
                (fetch prompt) of
           Inr txt \<Rightarrow>
             (let rawSentences = trim txt;
                  (parsedSentences, used') = parse_lines (split_nl rawSentences) usedSentences []
              in (Some (slice0 parsedSentences numberOfSentences), used',
                  s1\<lparr>isLoading := False\<rparr>, [prompt]))
         | Inl msg \<Rightarrow>
             (None, usedSentences,
              s1\<lparr>errorMessage := lit ''Failed to generate sentences: '' @ msg @
                                  lit ''. Please try again.'',
                 isLoading := False\<rparr>,
              [prompt]))"

section \<open>Review Client\<close>

definition review_prompt :: "jsstring \<Rightarrow> jsstring \<Rightarrow> jsstring" where
  "review_prompt originalSentenceUk userAnswerEn =
     reviewPrompt1 @ originalSentenceUk @ reviewPrompt2 @ userAnswerEn @ reviewPrompt3 @
     userAnswerEn @ reviewPrompt4"

text \<open>\<open>getSentenceReview\<close> returns the review string, the state after its
  \<open>setIsLoading\<close> and \<open>setErrorMessage\<close> calls, and the prompts it has sent.\<close>

definition getSentenceReview ::
  "service \<Rightarrow> jsstring \<Rightarrow> jsstring \<Rightarrow> app_state \<Rightarrow> jsstring \<times> app_state \<times> jsstring list" where
  "getSentenceReview fetch originalSentenceUk userAnswerEn s =
     (let s1 = s\<lparr>isLoading := True, errorMessage := []\<rparr>;
          reviewPrompt = review_prompt originalSentenceUk userAnswerEn
      in case response_text (lit ''Unexpected response structure from Gemini.'')
                (fetch reviewPrompt) of
           Inr txt \<Rightarrow> (trim txt, s1\<lparr>isLoading := False\<rparr>, [reviewPrompt])
         | Inl msg \<Rightarrow>
             (lit ''Failed to get review. Please try again.'',
              s1\<lparr>errorMessage := lit ''Failed to get review: '' @ msg @ lit ''.'',
                 isLoading := False\<rparr>,
              [reviewPrompt]))"

section \<open>Handlers\<close>

definition handleTenseChange :: "jsstring \<Rightarrow> app_state \<Rightarrow> app_state" where
  "handleTenseChange t s =
     s\<lparr>selectedTenses :=
         (if t \<in> set (selectedTenses s) then filter (\<lambda>u. u \<noteq> t) (selectedTenses s)
          else selectedTenses s @ [t])\<rparr>"

text \<open>The \<open>onChange\<close> handlers of the theme, count and answer fields.\<close>

definition onChangeThemes :: "jsstring \<Rightarrow> app_state \<Rightarrow> app_state" where
  "onChangeThemes v s = s\<lparr>selectedThemes := v\<rparr>"

definition onChangeNumSentences :: "jsstring \<Rightarrow> app_state \<Rightarrow> app_state" where
  "onChangeNumSentences v s = s\<lparr>numSentences := parseInt v\<rparr>"

definition onChangeUserAnswer :: "jsstring \<Rightarrow> app_state \<Rightarrow> app_state" where
  "onChangeUserAnswer v s = s\<lparr>userAnswer := v\<rparr>"

text \<open>\<open>handleStartPractice\<close>: the new state and the prompts sent. The fresh
  \<open>Set\<close> stored by \<open>setGeneratedSentencesSet\<close> is the object that \<open>generateSentences\<close>
  mutates, so the state holds the set as the call leaves it.\<close>

definition handleStartPractice :: "service \<Rightarrow> app_state \<Rightarrow> app_state \<times> jsstring list" where
  "handleStartPractice fetch s =
     (if length (selectedTenses s) = 0 then (s\<lparr>errorMessage := msgNoTense\<rparr>, [])
      else if js_le (numSentences s) (Num 0) then (s\<lparr>errorMessage := msgCount\<rparr>, [])
      else
        (let s1 = s\<lparr>isLoading := True, errorMessage := [], generatedSentencesSet := {}\<rparr>;
             (generated, used', s2, sent) =
                generateSentences fetch (selectedTenses s) (selectedThemes s) (numSentences s) {} s1;
             s3 = s2\<lparr>generatedSentencesSet := used'\<rparr>
         in case generated of
              Some (g # gs) \<Rightarrow>
                (s3\<lparr>sentencesData :=
                       map (\<lambda>item. \<lparr>originalSentence = sentence item, userAnswer_item = [],
                                     geminiReview = [], tenseUsed = tense item\<rparr>) (g # gs),
                    currentSentenceIndex := 0, userAnswer := [], currentReview := [],
                    currentPage := Practice, isLoading := False\<rparr>, sent)
            | _ \<Rightarrow> (s3\<lparr>errorMessage := msgNoSentences, sentencesData := [], isLoading := False\<rparr>,
                     sent)))"

text \<open>\<open>handleGetReview\<close>. Reading \<open>sentencesData[currentSentenceIndex].originalSentence\<close>
  throws a \<open>TypeError\<close> when the index is not below the length (the element is
  \<open>undefined\<close>); the handler then ends without a request and without a state update.\<close>

datatype error = TypeError

definition handleGetReview :: "service \<Rightarrow> app_state \<Rightarrow> error + app_state \<times> jsstring list" where
  "handleGetReview fetch s =
     (if trim (userAnswer s) = [] then Inr (s\<lparr>errorMessage := msgNoAnswer\<rparr>, [])
      else if \<not> currentSentenceIndex s < length (sentencesData s) then Inl TypeError
      else
        (let i = currentSentenceIndex s;
             originalSentenceUk = originalSentence (sentencesData s ! i);
             (review, s1, sent) = getSentenceReview fetch originalSentenceUk (userAnswer s) s
         in Inr (s1\<lparr>sentencesData :=
                       (sentencesData s)[i := (sentencesData s ! i)
                          \<lparr>userAnswer_item := userAnswer s, geminiReview := review\<rparr>],
                    currentReview := review\<rparr>, sent)))"

definition handleNextOrFinish :: "app_state \<Rightarrow> app_state" where
  "handleNextOrFinish s =
     (if js_lt (Num (int (currentSentenceIndex s))) (js_sub (numSentences s) (Num 1))
      then s\<lparr>currentSentenceIndex := currentSentenceIndex s + 1, userAnswer := [],
             currentReview := [], errorMessage := []\<rparr>
      else s\<lparr>currentPage := Start, selectedTenses := [], selectedThemes := [],
             numSentences := Num 5, sentencesData := [], currentSentenceIndex := 0,
             userAnswer := [], currentReview := [], errorMessage := [],
             generatedSentencesSet := {}\<rparr>)"

text \<open>The buttons. A click on a disabled button, or on a button of the screen that is
  not rendered, does nothing. The practice screen renders its buttons only when
  \<open>isLoading\<close> is false.\<close>

definition click_start :: "service \<Rightarrow> app_state \<Rightarrow> app_state \<times> jsstring list" where
  "click_start fetch s =
     (if currentPage s = Start \<and> \<not> (isLoading s \<or> \<not> isAuthReady s)
      then handleStartPractice fetch s else (s, []))"

definition click_review :: "service \<Rightarrow> app_state \<Rightarrow> error + app_state \<times> jsstring list" where
  "click_review fetch s =
     (if currentPage s = Practice \<and> \<not> (isLoading s \<or> trim (userAnswer s) = [])
      then handleGetReview fetch s else Inr (s, []))"

definition click_next :: "app_state \<Rightarrow> app_state" where
  "click_next s =
     (if currentPage s = Practice \<and> \<not> (isLoading s \<or> currentReview s = [])
      then handleNextOrFinish s else s)"

section \<open>Concrete inputs\<close>

text \<open>A successful response of the service whose first part carries the given text.\<close>

definition ok_text :: "jsstring \<Rightarrow> http_response" where
  "ok_text t = RespOk (ApiResult (Some [Candidate (Some (Content (Some [t])))]))"

text \<open>A service whose transport call fails, the sentence of the review scenario, and a
  response with a malformed line and a repeated sentence.\<close>

definition failing_service :: service where
  "failing_service prompt = FetchFailed (lit ''Failed to fetch'')"

definition sentence_uk :: jsstring where
  "sentence_uk = [1071, 32, 1111, 1084, 32, 1103, 1073, 1083, 1091, 1082, 1086, 46]"

definition mixed_text :: jsstring where
  "mixed_text = lit ''A [Present Simple]'' @ [0x0A] @ lit ''no tag here'' @ [0x0A] @
                lit ''A [Past Simple]'' @ [0x0A] @ lit ''B [Present Simple]''"

definition mixed_service :: service where
  "mixed_service prompt = ok_text mixed_text"

text \<open>A response whose second line has an empty text and a tense that was not asked
  for, and a configuration with one tense and a count of 2.\<close>

definition stray_text :: jsstring where
  "stray_text = lit ''A [Present Simple]'' @ [0x0A] @ lit '' [Past Simple]''"

definition stray_service :: service where
  "stray_service prompt = ok_text stray_text"

definition begin_state :: app_state where
  "begin_state = initial_state\<lparr>isAuthReady := True, selectedTenses := [lit ''Present Simple''],
                               numSentences := Num 2\<rparr>"

text \<open>The practice screen on one item with a typed answer, and a service whose review
  succeeds.\<close>

definition review_state :: app_state where
  "review_state =
     initial_state\<lparr>isAuthReady := True, currentPage := Practice,
       selectedTenses := [lit ''Present Simple''], numSentences := Num 1,
       sentencesData := [\<lparr>originalSentence = sentence_uk, userAnswer_item = [],
                          geminiReview = [], tenseUsed = lit ''Present Simple''\<rparr>],
       userAnswer := lit ''I eat a apple''\<rparr>"

definition review_ok_service :: service where
  "review_ok_service prompt = ok_text (lit '' Correct. '')"

text \<open>The start screen after the count field was emptied: \<open>parseInt("")\<close> is stored.\<close>

definition nan_state :: app_state where
  "nan_state = onChangeNumSentences [] begin_state"

text \<open>A session in which the service returns two sentences while the count is the
  default 5: the user selects a tense and begins, then answers and reviews the first
  item, goes on, and answers and reviews the second, which is the last item.\<close>

definition short_service :: service where
  "short_service prompt =
     (if take 7 prompt = genPrompt1
      then ok_text (lit ''A [Present Simple]'' @ [0x0A] @ lit ''B [Present Simple]'')
      else ok_text (lit ''Correct.''))"

definition session_start :: app_state where
  "session_start =
     fst (click_start short_service
            (handleTenseChange (lit ''Present Simple'') (initial_state\<lparr>isAuthReady := True\<rparr>)))"

definition answered :: "app_state \<Rightarrow> app_state" where
  "answered s =
     (case click_review short_service (onChangeUserAnswer (lit ''x'') s) of
        Inr (s', sent) \<Rightarrow> s'
      | Inl e \<Rightarrow> s)"

definition at_last_item :: app_state where
  "at_last_item = answered (click_next (answered session_start))"

text \<open>A response with two lines whose sentence texts differ only in white space.\<close>

definition spaced_text :: jsstring where
  "spaced_text = lit ''A [Present Simple]'' @ [0x0A] @ lit ''A  [Past Simple]'' @ [0x0A] @
                 lit ''B [Present Simple]''"

definition spaced_service :: service where
  "spaced_service prompt = ok_text spaced_text"

section \<open>Properties of the sentence pattern\<close>

text \<open>A match splits the line as \<open>pre @ text @ " [" @ tag @ "]"\<close>: the closing bracket
  is the last code unit of the line, and neither capture holds a line terminator.
  Conversely every line of that shape matches.\<close>

lemma lazy_tag_sound: "lazy_tag r = Some g \<Longrightarrow> r = g @ [0x5D] \<and> (\<forall>c\<in>set g. \<not> is_lt c)"
  by (induction r arbitrary: g) (auto split: if_splits)

lemma lazy_tag_complete: "\<forall>c\<in>set g. \<not> is_lt c \<Longrightarrow> lazy_tag (g @ [0x5D]) = Some g"
  by (induction g) auto

lemma after_text_sound:
  "after_text r = Some g \<Longrightarrow> r = [0x20, 0x5B] @ g @ [0x5D] \<and> (\<forall>c\<in>set g. \<not> is_lt c)"
  by (cases r rule: after_text.cases) (auto split: if_splits dest: lazy_tag_sound)

lemma greedy_text_sound:
  "greedy_text r = Some (g1, g2) \<Longrightarrow>
     r = g1 @ [0x20, 0x5B] @ g2 @ [0x5D] \<and> (\<forall>c\<in>set g1. \<not> is_lt c) \<and> (\<forall>c\<in>set g2. \<not> is_lt c)"
proof (induction r arbitrary: g1 g2)
  case Nil
  then show ?case by simp
next
  case (Cons c cs)
  show ?case
  proof (cases "is_lt c")
    case True
    with Cons.prems show ?thesis by (auto dest: after_text_sound)
  next
    case False
    show ?thesis
    proof (cases "greedy_text cs")
      case None
      with False Cons.prems show ?thesis by (auto dest: after_text_sound)
    next
      case (Some m)
      obtain h1 h2 where m: "m = (h1, h2)" by (cases m)
      with Some False Cons.prems have "g1 = c # h1" "g2 = h2" by auto
      with Cons.IH [of h1 h2] Some m False show ?thesis by auto
    qed
  qed
qed

lemma match_line_sound:
  "match_line l = Some (g1, g2) \<Longrightarrow>
     (\<exists>pre. l = pre @ g1 @ [0x20, 0x5B] @ g2 @ [0x5D]) \<and>
     (\<forall>c\<in>set g1. \<not> is_lt c) \<and> (\<forall>c\<in>set g2. \<not> is_lt c)"
proof (induction l)
  case Nil
  then show ?case by simp
next
  case (Cons c cs)
  show ?case
  proof (cases "greedy_text (c # cs)")
    case None
    with Cons.prems have "match_line cs = Some (g1, g2)" by simp
    from Cons.IH [OF this] show ?thesis by (metis append_Cons)
  next
    case (Some m)
    with Cons.prems have "greedy_text (c # cs) = Some (g1, g2)" by simp
    from greedy_text_sound [OF this] show ?thesis by (metis append_Nil)
  qed
qed

lemma greedy_text_complete:
  "\<forall>c\<in>set g1. \<not> is_lt c \<Longrightarrow> \<forall>c\<in>set g2. \<not> is_lt c \<Longrightarrow>
     greedy_text (g1 @ [0x20, 0x5B] @ g2 @ [0x5D]) \<noteq> None"
  by (induction g1) (auto simp: lazy_tag_complete is_lt_def split: option.splits)

lemma match_line_complete:
  "\<forall>c\<in>set g1. \<not> is_lt c \<Longrightarrow> \<forall>c\<in>set g2. \<not> is_lt c \<Longrightarrow>
     match_line (pre @ g1 @ [0x20, 0x5B] @ g2 @ [0x5D]) \<noteq> None"
proof (induction pre)
  case Nil
  from greedy_text_complete [OF Nil] show ?case
    by (cases "g1 @ [0x20, 0x5B] @ g2 @ [0x5D]") (auto split: option.splits)
next
  case (Cons c pre)
  then show ?case by (auto split: option.splits)
qed

section \<open>Properties of the parse loop and of \<open>slice\<close>\<close>

lemma parse_lines_filter:
  "parse_lines (filter (\<lambda>l. match_line l \<noteq> None) ls) used acc = parse_lines ls used acc"
  by (induction ls arbitrary: used acc) (auto simp: Let_def split: option.splits)

lemma parse_lines_used_mono: "used \<subseteq> snd (parse_lines ls used acc)"
proof (induction ls arbitrary: used acc)
  case Nil
  show ?case by simp
next
  case (Cons l ls)
  show ?case
  proof (cases "match_line l")
    case None
    with Cons.IH [of used acc] show ?thesis by simp
  next
    case (Some m)
    obtain g1 g2 where m: "m = (g1, g2)" by (cases m)
    show ?thesis
    proof (cases "trim g1 \<in> used")
      case True
      with Some m Cons.IH [of used acc] show ?thesis by simp
    next
      case False
      with Some m Cons.IH [of "insert (trim g1) used" "acc @ [\<lparr>sentence = trim g1, tense = trim g2\<rparr>]"]
      show ?thesis by (simp add: Let_def)
    qed
  qed
qed

lemma parse_lines_used:
  "snd (parse_lines ls used acc) =
     used \<union> {trim g1 | g1 g2 l. l \<in> set ls \<and> match_line l = Some (g1, g2)}"
proof (induction ls arbitrary: used acc)
  case Nil
  show ?case by simp
next
  case (Cons l ls)
  show ?case
  proof (cases "match_line l")
    case None
    with Cons.IH [of used acc] show ?thesis by auto
  next
    case (Some m)
    obtain g1 g2 where m: "m = (g1, g2)" by (cases m)
    show ?thesis
    proof (cases "trim g1 \<in> used")
      case True
      with Some m Cons.IH [of used acc] show ?thesis by auto
    next
      case False
      with Some m Cons.IH [of "insert (trim g1) used" "acc @ [\<lparr>sentence = trim g1, tense = trim g2\<rparr>]"]
      show ?thesis by (auto simp: Let_def)
    qed
  qed
qed

lemma parse_lines_sentences:
  "sentence ` set (fst (parse_lines ls used acc)) =
     sentence ` set acc \<union> (snd (parse_lines ls used acc) - used)"
proof (induction ls arbitrary: used acc)
  case Nil
  show ?case by simp
next
  case (Cons l ls)
  show ?case
  proof (cases "match_line l")
    case None
    with Cons.IH [of used acc] show ?thesis by simp
  next
    case (Some m)
    obtain g1 g2 where m: "m = (g1, g2)" by (cases m)
    show ?thesis
    proof (cases "trim g1 \<in> used")
      case True
      with Some m Cons.IH [of used acc] show ?thesis by simp
    next
      case False
      let ?u = "insert (trim g1) used" and ?a = "acc @ [\<lparr>sentence = trim g1, tense = trim g2\<rparr>]"
      have "trim g1 \<in> snd (parse_lines ls ?u ?a)"
        using parse_lines_used_mono [of ?u ls ?a] by auto
      with False Some m Cons.IH [of ?u ?a] show ?thesis by (auto simp: Let_def)
    qed
  qed
qed

lemma parse_lines_distinct:
  "distinct (map sentence acc) \<Longrightarrow> sentence ` set acc \<subseteq> used \<Longrightarrow>
     distinct (map sentence (fst (parse_lines ls used acc)))"
proof (induction ls arbitrary: used acc)
  case Nil
  then show ?case by simp
next
  case (Cons l ls)
  show ?case
  proof (cases "match_line l")
    case None
    with Cons show ?thesis by simp
  next
    case (Some m)
    obtain g1 g2 where m: "m = (g1, g2)" by (cases m)
    show ?thesis
    proof (cases "trim g1 \<in> used")
      case True
      with Some m Cons show ?thesis by simp
    next
      case False
      let ?u = "insert (trim g1) used" and ?a = "acc @ [\<lparr>sentence = trim g1, tense = trim g2\<rparr>]"
      from False Cons.prems have "distinct (map sentence ?a)" "sentence ` set ?a \<subseteq> ?u" by auto
      from Cons.IH [OF this] False Some m show ?thesis by (simp add: Let_def)
    qed
  qed
qed

lemma parse_lines_items:
  "\<forall>p\<in>set acc. Q p \<Longrightarrow>
   \<forall>l\<in>set ls. \<forall>g1 g2. match_line l = Some (g1, g2) \<longrightarrow> Q \<lparr>sentence = trim g1, tense = trim g2\<rparr> \<Longrightarrow>
     \<forall>p\<in>set (fst (parse_lines ls used acc)). Q p"
proof (induction ls arbitrary: used acc)
  case Nil
  then show ?case by simp
next
  case (Cons l ls)
  from Cons.prems(2)
  have rest: "\<forall>l\<in>set ls. \<forall>g1 g2. match_line l = Some (g1, g2) \<longrightarrow> Q \<lparr>sentence = trim g1, tense = trim g2\<rparr>"
    by simp
  show ?case
  proof (cases "match_line l")
    case None
    with Cons.IH [OF Cons.prems(1) rest, of used] show ?thesis by simp
  next
    case (Some m)
    obtain g1 g2 where m: "m = (g1, g2)" by (cases m)
    have Q: "Q \<lparr>sentence = trim g1, tense = trim g2\<rparr>" using Cons.prems(2) Some m by simp
    show ?thesis
    proof (cases "trim g1 \<in> used")
      case True
      with Some m Cons.IH [OF Cons.prems(1) rest, of used] show ?thesis by simp
    next
      case False
      let ?u = "insert (trim g1) used" and ?a = "acc @ [\<lparr>sentence = trim g1, tense = trim g2\<rparr>]"
      have "\<forall>p\<in>set ?a. Q p" using Q Cons.prems(1) by simp
      from Cons.IH [OF this rest, of ?u] False Some m show ?thesis by (simp add: Let_def)
    qed
  qed
qed

lemma slice0_length: "length (slice0 xs n) \<le> length xs"
  by (cases n) auto

lemma slice0_subset: "set (slice0 xs n) \<subseteq> set xs"
  by (cases n) (auto dest: in_set_takeD)

lemma slice0_distinct: "distinct (map f xs) \<Longrightarrow> distinct (map f (slice0 xs n))"
  by (cases n) (auto simp: take_map [symmetric])

lemma slice0_nonempty: "xs \<noteq> [] \<Longrightarrow> 1 \<le> k \<Longrightarrow> slice0 xs (Num k) \<noteq> []"
  by (cases xs) auto

lemma slice0_bound: "0 \<le> k \<Longrightarrow> int (length (slice0 xs (Num k))) \<le> k"
  by auto

section \<open>Review Client: failure\<close>

lemma response_text_failure:
  assumes "(\<exists>m. r = FetchFailed m) \<or> (\<exists>status b. r = NotOk status b) \<or>
           (\<exists>res. r = RespOk res \<and> first_text res = None)"
  shows "\<exists>msg. response_text u r = Inl msg"
  using assms by (auto simp: response_text_def)

lemma lit_nonempty: "s \<noteq> [] \<Longrightarrow> lit s \<noteq> []"
  by (simp add: lit_def)

text \<open>
  Claim C4. Whenever the call of the Review Client fails (the transport call is
  rejected, the status is not ok, or the response has not the expected structure),
  \<open>getSentenceReview\<close> returns the fixed string "Failed to get review. Please try
  again." instead of propagating the fault: the caller receives a non-empty string, the
  error message is set and loading has ended.
\<close>

theorem review_failure_returns_fallback:
  assumes "(\<exists>m. fetch (review_prompt orig ans) = FetchFailed m) \<or>
           (\<exists>status b. fetch (review_prompt orig ans) = NotOk status b) \<or>
           (\<exists>res. fetch (review_prompt orig ans) = RespOk res \<and> first_text res = None)"
  shows "fst (getSentenceReview fetch orig ans s) = lit ''Failed to get review. Please try again.'' \<and>
         fst (getSentenceReview fetch orig ans s) \<noteq> [] \<and>
         errorMessage (fst (snd (getSentenceReview fetch orig ans s))) \<noteq> [] \<and>
         \<not> isLoading (fst (snd (getSentenceReview fetch orig ans s)))"
proof -
  from response_text_failure [OF assms]
  obtain msg where "response_text (lit ''Unexpected response structure from Gemini.'')
                      (fetch (review_prompt orig ans)) = Inl msg" by blast
  then show ?thesis by (simp add: getSentenceReview_def lit_def)
qed

theorem review_failure_returns_fallback_witness:
  "failing_service (review_prompt sentence_uk (lit ''I eat a apple'')) = FetchFailed (lit ''Failed to fetch'') \<and>
   fst (getSentenceReview failing_service sentence_uk (lit ''I eat a apple'') initial_state)
     = lit ''Failed to get review. Please try again.''"
proof -
  have h: "(\<exists>m. failing_service (review_prompt sentence_uk (lit ''I eat a apple'')) = FetchFailed m) \<or>
           (\<exists>status b. failing_service (review_prompt sentence_uk (lit ''I eat a apple'')) = NotOk status b) \<or>
           (\<exists>res. failing_service (review_prompt sentence_uk (lit ''I eat a apple'')) = RespOk res \<and> first_text res = None)"
    by (simp add: failing_service_def)
  from review_failure_returns_fallback
         [of failing_service sentence_uk "lit ''I eat a apple''" initial_state, OF h]
  show ?thesis by (simp add: failing_service_def)
qed

section \<open>Local rejection of invalid setups\<close>

lemma msgs_nonempty: "msgNoTense \<noteq> []" "msgCount \<noteq> []" "msgNoAnswer \<noteq> []" "msgNoSentences \<noteq> []"
  by (simp_all add: msgNoTense_def msgCount_def msgNoAnswer_def msgNoSentences_def)

text \<open>
  Claim C7. With no tense selected, with a count that is zero or negative, or with an
  answer that is empty (or only white space), the handler only sets a non-empty message:
  the rest of the state is unchanged and no prompt is sent to the service.
\<close>

theorem invalid_setup_rejected_locally:
  "(selectedTenses s = [] \<longrightarrow> handleStartPractice fetch s = (s\<lparr>errorMessage := msgNoTense\<rparr>, [])) \<and>
   (numSentences s = Num k \<and> k \<le> 0 \<longrightarrow>
      handleStartPractice fetch s =
        (s\<lparr>errorMessage := (if selectedTenses s = [] then msgNoTense else msgCount)\<rparr>, [])) \<and>
   (trim (userAnswer s) = [] \<longrightarrow> handleGetReview fetch s = Inr (s\<lparr>errorMessage := msgNoAnswer\<rparr>, [])) \<and>
   msgNoTense \<noteq> [] \<and> msgCount \<noteq> [] \<and> msgNoAnswer \<noteq> []"
  by (simp add: handleStartPractice_def handleGetReview_def msgs_nonempty)


theorem invalid_setup_rejected_locally_witness:
  "selectedTenses initial_state = [] \<and>
   handleStartPractice failing_service initial_state = (initial_state\<lparr>errorMessage := msgNoTense\<rparr>, []) \<and>
   numSentences (initial_state\<lparr>selectedTenses := [lit ''Past Simple''], numSentences := Num 0\<rparr>) = Num 0 \<and>
   (0::int) \<le> 0 \<and>
   handleStartPractice failing_service (initial_state\<lparr>selectedTenses := [lit ''Past Simple''], numSentences := Num 0\<rparr>) =
     (initial_state\<lparr>selectedTenses := [lit ''Past Simple''], numSentences := Num 0, errorMessage := msgCount\<rparr>, []) \<and>
   trim (userAnswer (initial_state\<lparr>userAnswer := lit ''  ''\<rparr>)) = [] \<and>
   handleGetReview failing_service (initial_state\<lparr>userAnswer := lit ''  ''\<rparr>) =
     Inr (initial_state\<lparr>userAnswer := lit ''  '', errorMessage := msgNoAnswer\<rparr>, [])"
proof -
  have t: "trim (lit ''  '') = []" by (simp add: trim_def lit_def is_ws_def)
  show ?thesis
    using invalid_setup_rejected_locally [where s = initial_state and fetch = failing_service and k = 0]
      invalid_setup_rejected_locally
        [where s = "initial_state\<lparr>selectedTenses := [lit ''Past Simple''], numSentences := Num 0\<rparr>"
           and fetch = failing_service and k = 0]
      invalid_setup_rejected_locally
        [where s = "initial_state\<lparr>userAnswer := lit ''  ''\<rparr>" and fetch = failing_service and k = 0]
    by (simp add: initial_state_def t)
qed

section \<open>Sentence Generation Client: results\<close>

lemma response_text_ok:
  "r = RespOk res \<Longrightarrow> first_text res = Some txt \<Longrightarrow> response_text u r = Inr txt"
  by (simp add: response_text_def)

lemma generateSentences_ok:
  assumes "response_text (lit ''Unexpected response structure from Gemini or no content generated.'')
             (fetch (gen_prompt (chosenTenses tenses) themes n)) = Inr txt"
  shows "generateSentences fetch tenses themes n used s =
           (Some (slice0 (fst (parse_lines (split_nl (trim txt)) used [])) n),
            snd (parse_lines (split_nl (trim txt)) used []),
            s\<lparr>isLoading := False, errorMessage := []\<rparr>,
            [gen_prompt (chosenTenses tenses) themes n])"
  using assms by (simp add: generateSentences_def Let_def split_beta)

lemma generateSentences_fail:
  assumes "response_text (lit ''Unexpected response structure from Gemini or no content generated.'')
             (fetch (gen_prompt (chosenTenses tenses) themes n)) = Inl msg"
  shows "generateSentences fetch tenses themes n used s =
           (None, used,
            s\<lparr>isLoading := False,
              errorMessage := lit ''Failed to generate sentences: '' @ msg @ lit ''. Please try again.''\<rparr>,
            [gen_prompt (chosenTenses tenses) themes n])"
  using assms by (simp add: generateSentences_def Let_def)

lemma parse_lines_disjoint:
  "sentence ` set (fst (parse_lines ls used [])) \<inter> used = {}"
  using parse_lines_sentences [of ls used "[]"] by auto

lemma parse_lines_nonempty:
  assumes "l \<in> set ls" "match_line l = Some (g1, g2)" "trim g1 \<notin> used"
  shows "fst (parse_lines ls used []) \<noteq> []"
proof -
  have "trim g1 \<in> snd (parse_lines ls used [])"
    using assms(1,2) parse_lines_used [of ls used "[]"] by auto
  with assms(3) have "trim g1 \<in> sentence ` set (fst (parse_lines ls used []))"
    using parse_lines_sentences [of ls used "[]"] by auto
  then show ?thesis by auto
qed

lemma mixed_parse:
  "parse_lines (split_nl (trim mixed_text)) {} [] =
     ([\<lparr>sentence = lit ''A'', tense = lit ''Present Simple''\<rparr>,
       \<lparr>sentence = lit ''B'', tense = lit ''Present Simple''\<rparr>],
      {lit ''A'', lit ''B''})"
  by code_simp


text \<open>
  Claim C10. The call never removes an element of the seen set. When the service
  answers, every sentence parsed from the response is in the seen set after the call:
  the set is the old one together with the sentences of all parsed lines, while the
  returned sequence is only the \<open>slice\<close> of the parsed sequence, so parsed sentences
  beyond the count are in the set and absent from the result.
\<close>

theorem seen_set_keeps_all_parsed:
  assumes "generateSentences fetch tenses themes n used s = (r, used', s', sent)"
  shows "used \<subseteq> used' \<and>
         (\<forall>res txt. fetch (gen_prompt (chosenTenses tenses) themes n) = RespOk res \<and>
                    first_text res = Some txt \<longrightarrow>
            r = Some (slice0 (fst (parse_lines (split_nl (trim txt)) used [])) n) \<and>
            used' = used \<union> sentence ` set (fst (parse_lines (split_nl (trim txt)) used [])) \<and>
            used' = used \<union> {trim g1 | g1 g2 l. l \<in> set (split_nl (trim txt)) \<and>
                                              match_line l = Some (g1, g2)})"
proof (cases "response_text (lit ''Unexpected response structure from Gemini or no content generated.'')
                (fetch (gen_prompt (chosenTenses tenses) themes n))")
  case (Inl msg)
  from generateSentences_fail [where fetch = fetch and used = used and s = s, OF Inl] assms have "used' = used" by simp
  moreover from Inl have "\<forall>res txt. \<not> (fetch (gen_prompt (chosenTenses tenses) themes n) = RespOk res \<and>
                    first_text res = Some txt)"
    by (auto simp: response_text_def split: option.splits)
  ultimately show ?thesis by blast
next
  case (Inr body)
  let ?P = "parse_lines (split_nl (trim body)) used []"
  from generateSentences_ok [where fetch = fetch and used = used and s = s, OF Inr] assms
  have r: "r = Some (slice0 (fst ?P) n)" and u: "used' = snd ?P" by simp_all
  have mono: "used \<subseteq> used'" using u parse_lines_used_mono [of used "split_nl (trim body)" "[]"] by simp
  have all: "used' = used \<union> {trim g1 | g1 g2 l. l \<in> set (split_nl (trim body)) \<and>
                                              match_line l = Some (g1, g2)}"
    using u parse_lines_used [of "split_nl (trim body)" used "[]"] by simp
  have "sentence ` set (fst ?P) = used' - used"
    using u parse_lines_sentences [of "split_nl (trim body)" used "[]"] by simp
  with mono have em: "used' = used \<union> sentence ` set (fst ?P)" by auto
  have "\<forall>res t. fetch (gen_prompt (chosenTenses tenses) themes n) = RespOk res \<and>
                    first_text res = Some t \<longrightarrow> t = body"
    using Inr by (auto simp: response_text_def)
  with r em all mono show ?thesis by blast
qed

theorem seen_set_keeps_all_parsed_witness:
  "generateSentences mixed_service [lit ''Present Simple''] [] (Num 1) {} initial_state =
     (Some [\<lparr>sentence = lit ''A'', tense = lit ''Present Simple''\<rparr>], {lit ''A'', lit ''B''},
      initial_state, [gen_prompt [lit ''Present Simple''] [] (Num 1)]) \<and>
   mixed_service (gen_prompt (chosenTenses [lit ''Present Simple'']) [] (Num 1)) =
     RespOk (ApiResult (Some [Candidate (Some (Content (Some [mixed_text])))])) \<and>
   first_text (ApiResult (Some [Candidate (Some (Content (Some [mixed_text])))])) = Some mixed_text \<and>
   {lit ''A'', lit ''B''} =
     {} \<union> sentence ` set (fst (parse_lines (split_nl (trim mixed_text)) {} [])) \<and>
   lit ''B'' \<in> {lit ''A'', lit ''B''} \<and>
   lit ''B'' \<notin> sentence ` set [\<lparr>sentence = lit ''A'', tense = lit ''Present Simple''\<rparr>]"
proof -
  have f: "first_text (ApiResult (Some [Candidate (Some (Content (Some [mixed_text])))])) = Some mixed_text"
    by (simp add: first_text_def)
  have m: "mixed_service (gen_prompt (chosenTenses [lit ''Present Simple'']) [] (Num 1)) =
             RespOk (ApiResult (Some [Candidate (Some (Content (Some [mixed_text])))]))"
    by (simp add: mixed_service_def ok_text_def)
  have c: "chosenTenses [lit ''Present Simple''] = [lit ''Present Simple'']"
    by (simp add: chosenTenses_def)
  have g: "generateSentences mixed_service [lit ''Present Simple''] [] (Num 1) {} initial_state =
     (Some [\<lparr>sentence = lit ''A'', tense = lit ''Present Simple''\<rparr>], {lit ''A'', lit ''B''},
      initial_state, [gen_prompt [lit ''Present Simple''] [] (Num 1)])"
    using generateSentences_ok [where fetch = mixed_service and used = "{}" and s = initial_state,
            OF response_text_ok [OF m f]]
    by (simp add: mixed_parse c initial_state_def)
  have k: "{lit ''A'', lit ''B''} =
     {} \<union> sentence ` set (fst (parse_lines (split_nl (trim mixed_text)) {} []))"
    using seen_set_keeps_all_parsed [OF g] m f by blast
  have e1: "lit ''B'' \<in> {lit ''A'', lit ''B''}" by simp
  have e2: "lit ''B'' \<notin> sentence ` set [\<lparr>sentence = lit ''A'', tense = lit ''Present Simple''\<rparr>]"
    by (simp add: lit_def)
  show ?thesis by (intro conjI g m f k e1 e2)
qed


section \<open>The begin action\<close>

lemma handleStartPractice_answered:
  assumes "selectedTenses s \<noteq> []" "\<not> js_le (numSentences s) (Num 0)"
    and "response_text (lit ''Unexpected response structure from Gemini or no content generated.'')
           (fetch (gen_prompt (chosenTenses (selectedTenses s)) (selectedThemes s) (numSentences s)))
         = Inr body"
  shows "handleStartPractice fetch s =
     (if slice0 (fst (parse_lines (split_nl (trim body)) {} [])) (numSentences s) \<noteq> []
      then s\<lparr>isLoading := False, errorMessage := [],
             generatedSentencesSet := snd (parse_lines (split_nl (trim body)) {} []),
             sentencesData :=
               map (\<lambda>item. \<lparr>originalSentence = sentence item, userAnswer_item = [],
                             geminiReview = [], tenseUsed = tense item\<rparr>)
                 (slice0 (fst (parse_lines (split_nl (trim body)) {} [])) (numSentences s)),
             currentSentenceIndex := 0, userAnswer := [], currentReview := [],
             currentPage := Practice\<rparr>
      else s\<lparr>isLoading := False, errorMessage := msgNoSentences,
             generatedSentencesSet := snd (parse_lines (split_nl (trim body)) {} []),
             sentencesData := []\<rparr>,
      [gen_prompt (chosenTenses (selectedTenses s)) (selectedThemes s) (numSentences s)])"
proof (cases "slice0 (fst (parse_lines (split_nl (trim body)) {} [])) (numSentences s)")
  case Nil
  with assms(1,2)
    generateSentences_ok [where fetch = fetch and tenses = "selectedTenses s"
      and themes = "selectedThemes s" and n = "numSentences s", OF assms(3)]
  show ?thesis by (simp add: handleStartPractice_def)
next
  case (Cons g gs)
  with assms(1,2)
    generateSentences_ok [where fetch = fetch and tenses = "selectedTenses s"
      and themes = "selectedThemes s" and n = "numSentences s", OF assms(3)]
  show ?thesis by (simp add: handleStartPractice_def)
qed

lemma handleStartPractice_failed:
  assumes "selectedTenses s \<noteq> []" "\<not> js_le (numSentences s) (Num 0)"
    and "response_text (lit ''Unexpected response structure from Gemini or no content generated.'')
           (fetch (gen_prompt (chosenTenses (selectedTenses s)) (selectedThemes s) (numSentences s)))
         = Inl msg"
  shows "handleStartPractice fetch s =
     (s\<lparr>isLoading := False, errorMessage := msgNoSentences, generatedSentencesSet := {},
        sentencesData := []\<rparr>,
      [gen_prompt (chosenTenses (selectedTenses s)) (selectedThemes s) (numSentences s)])"
  using assms(1,2)
    generateSentences_fail [where fetch = fetch and tenses = "selectedTenses s"
      and themes = "selectedThemes s" and n = "numSentences s", OF assms(3)]
  by (simp add: handleStartPractice_def)

section \<open>Outcome of the begin action\<close>

lemma stray_parse:
  "parse_lines (split_nl (trim stray_text)) {} [] =
     ([\<lparr>sentence = lit ''A'', tense = lit ''Present Simple''\<rparr>,
       \<lparr>sentence = [], tense = lit ''Past Simple''\<rparr>],
      {lit ''A'', []})"
  by code_simp

lemma stray_begin:
  "handleStartPractice stray_service begin_state =
     (begin_state\<lparr>generatedSentencesSet := {lit ''A'', []},
        sentencesData :=
          [\<lparr>originalSentence = lit ''A'', userAnswer_item = [], geminiReview = [],
            tenseUsed = lit ''Present Simple''\<rparr>,
           \<lparr>originalSentence = [], userAnswer_item = [], geminiReview = [],
            tenseUsed = lit ''Past Simple''\<rparr>],
        currentPage := Practice\<rparr>,
      [gen_prompt [lit ''Present Simple''] [] (Num 2)])"
proof -
  have g: "selectedTenses begin_state \<noteq> []" "\<not> js_le (numSentences begin_state) (Num 0)"
    by (simp_all add: begin_state_def initial_state_def)
  have r: "response_text (lit ''Unexpected response structure from Gemini or no content generated.'')
           (stray_service (gen_prompt (chosenTenses (selectedTenses begin_state))
              (selectedThemes begin_state) (numSentences begin_state))) = Inr stray_text"
    by (simp add: stray_service_def ok_text_def response_text_def first_text_def)
  show ?thesis
    unfolding handleStartPractice_answered [where fetch = stray_service, OF g r]
    by (simp add: stray_parse begin_state_def initial_state_def chosenTenses_def)
qed

text \<open>
  Claim C3 as stated fails: with the tense "Present Simple" selected and a count of 2,
  the response \<open>"A [Present Simple]\\n [Past Simple]"\<close> starts a practice session whose
  second item has an empty \<open>originalSentence\<close> and the tense "Past Simple", which is
  neither requested nor the default.
\<close>

theorem begin_items_unchecked_counterexample:
  "selectedTenses begin_state = [lit ''Present Simple''] \<and> numSentences begin_state = Num 2 \<and>
   currentPage (fst (handleStartPractice stray_service begin_state)) = Practice \<and>
   length (sentencesData (fst (handleStartPractice stray_service begin_state))) = 2 \<and>
   originalSentence (sentencesData (fst (handleStartPractice stray_service begin_state)) ! 1) = [] \<and>
   tenseUsed (sentencesData (fst (handleStartPractice stray_service begin_state)) ! 1) = lit ''Past Simple'' \<and>
   lit ''Past Simple'' \<notin> set (selectedTenses begin_state) \<and>
   lit ''Past Simple'' \<noteq> lit ''Present Simple''"
  by (simp add: stray_begin) (simp add: begin_state_def initial_state_def lit_def)


lemma response_text_Inr:
  "response_text u r = Inr body \<Longrightarrow> \<exists>res. r = RespOk res \<and> first_text res = Some body"
  by (cases r) (auto simp: response_text_def split: option.splits)

lemma parsed_from_lines:
  "\<forall>p\<in>set (fst (parse_lines ls used [])).
     \<exists>l\<in>set ls. \<exists>g1 g2. match_line l = Some (g1, g2) \<and> sentence p = trim g1 \<and> tense p = trim g2"
  by (rule parse_lines_items) auto

text \<open>
  Claim C3, amended. For every configuration with at least one selected tense and a
  count of at least 1, the begin action sends one generation request and then either
  shows the Practice screen at index 0 with between 1 and count items, every item having
  an empty answer and review and carrying the trimmed text and the trimmed tag of a
  matching line of the response (the text is not checked for emptiness and the tag is
  not checked against the requested tenses), or it stays on its screen with the error
  message set and no practice items.
\<close>

theorem begin_outcome:
  assumes "selectedTenses s \<noteq> []" and "numSentences s = Num n" and "1 \<le> n"
  shows "snd (handleStartPractice fetch s) =
           [gen_prompt (chosenTenses (selectedTenses s)) (selectedThemes s) (Num n)] \<and>
         \<not> isLoading (fst (handleStartPractice fetch s)) \<and>
         ((currentPage (fst (handleStartPractice fetch s)) = Practice \<and>
           currentSentenceIndex (fst (handleStartPractice fetch s)) = 0 \<and>
           sentencesData (fst (handleStartPractice fetch s)) \<noteq> [] \<and>
           int (length (sentencesData (fst (handleStartPractice fetch s)))) \<le> n \<and>
           errorMessage (fst (handleStartPractice fetch s)) = [] \<and>
           userAnswer (fst (handleStartPractice fetch s)) = [] \<and>
           currentReview (fst (handleStartPractice fetch s)) = [] \<and>
           (\<exists>res body.
              fetch (gen_prompt (chosenTenses (selectedTenses s)) (selectedThemes s) (Num n))
                = RespOk res \<and>
              first_text res = Some body \<and>
              (\<forall>it\<in>set (sentencesData (fst (handleStartPractice fetch s))).
                 userAnswer_item it = [] \<and> geminiReview it = [] \<and>
                 (\<exists>l\<in>set (split_nl (trim body)). \<exists>g1 g2.
                    match_line l = Some (g1, g2) \<and>
                    originalSentence it = trim g1 \<and> tenseUsed it = trim g2)))) \<or>
          (currentPage (fst (handleStartPractice fetch s)) = currentPage s \<and>
           errorMessage (fst (handleStartPractice fetch s)) = msgNoSentences \<and>
           msgNoSentences \<noteq> [] \<and>
           sentencesData (fst (handleStartPractice fetch s)) = []))"
proof -
  let ?p = "gen_prompt (chosenTenses (selectedTenses s)) (selectedThemes s) (numSentences s)"
  have g: "selectedTenses s \<noteq> []" "\<not> js_le (numSentences s) (Num 0)"
    using assms by simp_all
  show ?thesis
  proof (cases "response_text (lit ''Unexpected response structure from Gemini or no content generated.'')
                  (fetch ?p)")
    case (Inl msg)
    from handleStartPractice_failed [where fetch = fetch, OF g Inl] assms(2)
    show ?thesis by (simp add: msgs_nonempty)
  next
    case (Inr body)
    let ?items = "slice0 (fst (parse_lines (split_nl (trim body)) {} [])) (numSentences s)"
    note run = handleStartPractice_answered [where fetch = fetch, OF g Inr]
    show ?thesis
    proof (cases "?items = []")
      case True
      with run assms(2) show ?thesis by (simp add: msgs_nonempty)
    next
      case False
      from response_text_Inr [OF Inr] obtain res where
        res: "fetch ?p = RespOk res" "first_text res = Some body" by blast
      have len: "int (length ?items) \<le> n"
        using assms(2,3) slice0_bound [of n] by simp
      have "set ?items \<subseteq> set (fst (parse_lines (split_nl (trim body)) {} []))"
        by (rule slice0_subset)
      with parsed_from_lines [of "split_nl (trim body)" "{}"]
      have src: "\<forall>p\<in>set ?items. \<exists>l\<in>set (split_nl (trim body)). \<exists>g1 g2.
                   match_line l = Some (g1, g2) \<and> sentence p = trim g1 \<and> tense p = trim g2"
        by blast
      have st: "fst (handleStartPractice fetch s) =
           s\<lparr>isLoading := False, errorMessage := [],
             generatedSentencesSet := snd (parse_lines (split_nl (trim body)) {} []),
             sentencesData :=
               map (\<lambda>item. \<lparr>originalSentence = sentence item, userAnswer_item = [],
                             geminiReview = [], tenseUsed = tense item\<rparr>) ?items,
             currentSentenceIndex := 0, userAnswer := [], currentReview := [],
             currentPage := Practice\<rparr>"
        and sn: "snd (handleStartPractice fetch s) = [?p]"
        using run False by simp_all
      have items: "\<forall>it\<in>set (sentencesData (fst (handleStartPractice fetch s))).
                 userAnswer_item it = [] \<and> geminiReview it = [] \<and>
                 (\<exists>l\<in>set (split_nl (trim body)). \<exists>g1 g2.
                    match_line l = Some (g1, g2) \<and>
                    originalSentence it = trim g1 \<and> tenseUsed it = trim g2)"
        unfolding st using src by auto
      have basics: "currentPage (fst (handleStartPractice fetch s)) = Practice"
        "currentSentenceIndex (fst (handleStartPractice fetch s)) = 0"
        "sentencesData (fst (handleStartPractice fetch s)) \<noteq> []"
        "int (length (sentencesData (fst (handleStartPractice fetch s)))) \<le> n"
        "errorMessage (fst (handleStartPractice fetch s)) = []"
        "userAnswer (fst (handleStartPractice fetch s)) = []"
        "currentReview (fst (handleStartPractice fetch s)) = []"
        "\<not> isLoading (fst (handleStartPractice fetch s))"
        unfolding st using False len by simp_all
      from basics items res sn assms(2) show ?thesis by auto
    qed
  qed
qed

theorem begin_outcome_witness:
  "selectedTenses begin_state \<noteq> [] \<and> numSentences begin_state = Num 2 \<and> (1::int) \<le> 2 \<and>
   currentPage (fst (handleStartPractice stray_service begin_state)) = Practice \<and>
   (snd (handleStartPractice stray_service begin_state) =
           [gen_prompt (chosenTenses (selectedTenses begin_state)) (selectedThemes begin_state) (Num 2)] \<and>
         \<not> isLoading (fst (handleStartPractice stray_service begin_state)) \<and>
         ((currentPage (fst (handleStartPractice stray_service begin_state)) = Practice \<and>
           currentSentenceIndex (fst (handleStartPractice stray_service begin_state)) = 0 \<and>
           sentencesData (fst (handleStartPractice stray_service begin_state)) \<noteq> [] \<and>
           int (length (sentencesData (fst (handleStartPractice stray_service begin_state)))) \<le> 2 \<and>
           errorMessage (fst (handleStartPractice stray_service begin_state)) = [] \<and>
           userAnswer (fst (handleStartPractice stray_service begin_state)) = [] \<and>
           currentReview (fst (handleStartPractice stray_service begin_state)) = [] \<and>
           (\<exists>res body.
              stray_service (gen_prompt (chosenTenses (selectedTenses begin_state)) (selectedThemes begin_state) (Num 2))
                = RespOk res \<and>
              first_text res = Some body \<and>
              (\<forall>it\<in>set (sentencesData (fst (handleStartPractice stray_service begin_state))).
                 userAnswer_item it = [] \<and> geminiReview it = [] \<and>
                 (\<exists>l\<in>set (split_nl (trim body)). \<exists>g1 g2.
                    match_line l = Some (g1, g2) \<and>
                    originalSentence it = trim g1 \<and> tenseUsed it = trim g2)))) \<or>
          (currentPage (fst (handleStartPractice stray_service begin_state)) = currentPage begin_state \<and>
           errorMessage (fst (handleStartPractice stray_service begin_state)) = msgNoSentences \<and>
           msgNoSentences \<noteq> [] \<and>
           sentencesData (fst (handleStartPractice stray_service begin_state)) = [])))"
proof -
  have h1: "selectedTenses begin_state \<noteq> []" and h2: "numSentences begin_state = Num 2"
    by (simp_all add: begin_state_def initial_state_def)
  have h3: "(1::int) \<le> 2" by simp
  have pg: "currentPage (fst (handleStartPractice stray_service begin_state)) = Practice"
    by (simp add: stray_begin)
  note t = begin_outcome [where fetch = stray_service and s = begin_state and n = 2, OF h1 h2 h3]
  show ?thesis by (rule conjI [OF h1 conjI [OF h2 conjI [OF h3 conjI [OF pg t]]]])
qed

section \<open>The review action\<close>

lemma getSentenceReview_failed:
  assumes "response_text (lit ''Unexpected response structure from Gemini.'')
             (fetch (review_prompt orig ans)) = Inl msg"
  shows "getSentenceReview fetch orig ans s =
           (lit ''Failed to get review. Please try again.'',
            s\<lparr>isLoading := False, errorMessage := lit ''Failed to get review: '' @ msg @ lit ''.''\<rparr>,
            [review_prompt orig ans])"
  using assms by (simp add: getSentenceReview_def)

lemma getSentenceReview_answered:
  assumes "response_text (lit ''Unexpected response structure from Gemini.'')
             (fetch (review_prompt orig ans)) = Inr body"
  shows "getSentenceReview fetch orig ans s =
           (trim body, s\<lparr>isLoading := False, errorMessage := []\<rparr>, [review_prompt orig ans])"
  using assms by (simp add: getSentenceReview_def)

lemma handleGetReview_run:
  assumes "trim (userAnswer s) \<noteq> []" and "currentSentenceIndex s < length (sentencesData s)"
  shows "handleGetReview fetch s =
     Inr ((fst (snd (getSentenceReview fetch
                 (originalSentence (sentencesData s ! currentSentenceIndex s)) (userAnswer s) s)))
          \<lparr>sentencesData := (sentencesData s)[currentSentenceIndex s :=
              (sentencesData s ! currentSentenceIndex s)
                \<lparr>userAnswer_item := userAnswer s,
                 geminiReview := fst (getSentenceReview fetch
                   (originalSentence (sentencesData s ! currentSentenceIndex s)) (userAnswer s) s)\<rparr>],
           currentReview := fst (getSentenceReview fetch
                   (originalSentence (sentencesData s ! currentSentenceIndex s)) (userAnswer s) s)\<rparr>,
          snd (snd (getSentenceReview fetch
                 (originalSentence (sentencesData s ! currentSentenceIndex s)) (userAnswer s) s)))"
  using assms by (simp add: handleGetReview_def Let_def split_beta)

text \<open>
  Claim C2 as stated fails in its failure half: with the answer "I eat a apple" and a
  transport call that fails, the review of the current item and the displayed review
  are both the fallback string, not empty.
\<close>

theorem failed_review_is_stored_counterexample:
  "trim (userAnswer review_state) \<noteq> [] \<and>
   failing_service (review_prompt sentence_uk (lit ''I eat a apple'')) = FetchFailed (lit ''Failed to fetch'') \<and>
   handleGetReview failing_service review_state =
     Inr (review_state
            \<lparr>errorMessage := lit ''Failed to get review: Failed to fetch.'',
             sentencesData := [\<lparr>originalSentence = sentence_uk, userAnswer_item = lit ''I eat a apple'',
                                geminiReview = lit ''Failed to get review. Please try again.'',
                                tenseUsed = lit ''Present Simple''\<rparr>],
             currentReview := lit ''Failed to get review. Please try again.''\<rparr>,
          [review_prompt sentence_uk (lit ''I eat a apple'')]) \<and>
   lit ''Failed to get review. Please try again.'' \<noteq> []"
proof -
  have t: "trim (userAnswer review_state) \<noteq> []"
    by (simp add: review_state_def initial_state_def trim_def lit_def is_ws_def is_lt_def)
  have i: "currentSentenceIndex review_state < length (sentencesData review_state)"
    by (simp add: review_state_def initial_state_def)
  have f: "response_text (lit ''Unexpected response structure from Gemini.'')
             (failing_service (review_prompt sentence_uk (lit ''I eat a apple''))) = Inl (lit ''Failed to fetch'')"
    by (simp add: failing_service_def response_text_def)
  have o: "originalSentence (sentencesData review_state ! currentSentenceIndex review_state) = sentence_uk"
    "userAnswer review_state = lit ''I eat a apple''"
    by (simp_all add: review_state_def initial_state_def)
  show ?thesis
    using t handleGetReview_run [where fetch = failing_service, OF t i]
      getSentenceReview_failed [where fetch = failing_service and s = review_state, OF f]
    by (simp add: o) (simp add: review_state_def initial_state_def failing_service_def lit_def)
qed


text \<open>
  Claim C2, amended. When the review action is triggered with a non-empty answer on an
  existing current item, one review request is sent and the string returned by the
  Review Client is stored into both the current item and the displayed review field,
  together with the answer: on failure this string is the fixed fallback "Failed to get
  review. Please try again." and the error message is set; on success it is the trimmed
  text of the response and the error message is cleared.
\<close>

theorem review_outcome:
  assumes "trim (userAnswer s) \<noteq> []" and "currentSentenceIndex s < length (sentencesData s)"
  shows "\<exists>s'. handleGetReview fetch s =
                 Inr (s', [review_prompt
                             (originalSentence (sentencesData s ! currentSentenceIndex s))
                             (userAnswer s)]) \<and>
              currentSentenceIndex s' = currentSentenceIndex s \<and>
              length (sentencesData s') = length (sentencesData s) \<and>
              geminiReview (sentencesData s' ! currentSentenceIndex s) = currentReview s' \<and>
              userAnswer_item (sentencesData s' ! currentSentenceIndex s) = userAnswer s \<and>
              \<not> isLoading s' \<and>
              ((\<exists>m. fetch (review_prompt
                             (originalSentence (sentencesData s ! currentSentenceIndex s))
                             (userAnswer s)) = FetchFailed m) \<or>
               (\<exists>status b. fetch (review_prompt
                             (originalSentence (sentencesData s ! currentSentenceIndex s))
                             (userAnswer s)) = NotOk status b) \<or>
               (\<exists>res. fetch (review_prompt
                             (originalSentence (sentencesData s ! currentSentenceIndex s))
                             (userAnswer s)) = RespOk res \<and> first_text res = None)
               \<longrightarrow> currentReview s' = lit ''Failed to get review. Please try again.'' \<and>
                   errorMessage s' \<noteq> []) \<and>
              (\<forall>res body. fetch (review_prompt
                             (originalSentence (sentencesData s ! currentSentenceIndex s))
                             (userAnswer s)) = RespOk res \<and> first_text res = Some body
               \<longrightarrow> currentReview s' = trim body \<and> errorMessage s' = [])"
proof -
  let ?o = "originalSentence (sentencesData s ! currentSentenceIndex s)"
  let ?r = "response_text (lit ''Unexpected response structure from Gemini.'')
              (fetch (review_prompt ?o (userAnswer s)))"
  note run = handleGetReview_run [where fetch = fetch, OF assms]
  show ?thesis
  proof (cases ?r)
    case (Inl msg)
    have no: "\<forall>res body. \<not> (fetch (review_prompt ?o (userAnswer s)) = RespOk res \<and>
                              first_text res = Some body)"
      using Inl by (auto simp: response_text_def split: option.splits)
    from run getSentenceReview_failed [where fetch = fetch and s = s, OF Inl] assms(2) no
    show ?thesis by (simp add: lit_def)
  next
    case (Inr body)
    have yes: "\<forall>res b. fetch (review_prompt ?o (userAnswer s)) = RespOk res \<and>
                        first_text res = Some b \<longrightarrow> b = body"
      and no: "\<not> ((\<exists>m. fetch (review_prompt ?o (userAnswer s)) = FetchFailed m) \<or>
               (\<exists>status b. fetch (review_prompt ?o (userAnswer s)) = NotOk status b) \<or>
               (\<exists>res. fetch (review_prompt ?o (userAnswer s)) = RespOk res \<and> first_text res = None))"
      using Inr by (auto simp: response_text_def split: option.splits)
    from run getSentenceReview_answered [where fetch = fetch and s = s, OF Inr] assms(2) no yes
    show ?thesis by auto
  qed
qed

theorem review_outcome_witness:
  "trim (userAnswer review_state) \<noteq> [] \<and>
   currentSentenceIndex review_state < length (sentencesData review_state) \<and>
   failing_service (review_prompt
       (originalSentence (sentencesData review_state ! currentSentenceIndex review_state))
       (userAnswer review_state)) = FetchFailed (lit ''Failed to fetch'') \<and>
   review_ok_service (review_prompt
       (originalSentence (sentencesData review_state ! currentSentenceIndex review_state))
       (userAnswer review_state)) = RespOk (ApiResult (Some [Candidate (Some (Content (Some [lit '' Correct. ''])))])) \<and>
   first_text (ApiResult (Some [Candidate (Some (Content (Some [lit '' Correct. ''])))])) = Some (lit '' Correct. '') \<and>
   trim (lit '' Correct. '') = lit ''Correct.'' \<and>
   (\<exists>s'. handleGetReview failing_service review_state =
                 Inr (s', [review_prompt
                             (originalSentence (sentencesData review_state ! currentSentenceIndex review_state))
                             (userAnswer review_state)]) \<and>
              currentSentenceIndex s' = currentSentenceIndex review_state \<and>
              length (sentencesData s') = length (sentencesData review_state) \<and>
              geminiReview (sentencesData s' ! currentSentenceIndex review_state) = currentReview s' \<and>
              userAnswer_item (sentencesData s' ! currentSentenceIndex review_state) = userAnswer review_state \<and>
              \<not> isLoading s' \<and>
              ((\<exists>m. failing_service (review_prompt
                             (originalSentence (sentencesData review_state ! currentSentenceIndex review_state))
                             (userAnswer review_state)) = FetchFailed m) \<or>
               (\<exists>status b. failing_service (review_prompt
                             (originalSentence (sentencesData review_state ! currentSentenceIndex review_state))
                             (userAnswer review_state)) = NotOk status b) \<or>
               (\<exists>res. failing_service (review_prompt
                             (originalSentence (sentencesData review_state ! currentSentenceIndex review_state))
                             (userAnswer review_state)) = RespOk res \<and> first_text res = None)
               \<longrightarrow> currentReview s' = lit ''Failed to get review. Please try again.'' \<and>
                   errorMessage s' \<noteq> []) \<and>
              (\<forall>res body. failing_service (review_prompt
                             (originalSentence (sentencesData review_state ! currentSentenceIndex review_state))
                             (userAnswer review_state)) = RespOk res \<and> first_text res = Some body
               \<longrightarrow> currentReview s' = trim body \<and> errorMessage s' = [])) \<and>
   (\<exists>s'. handleGetReview review_ok_service review_state =
                 Inr (s', [review_prompt
                             (originalSentence (sentencesData review_state ! currentSentenceIndex review_state))
                             (userAnswer review_state)]) \<and>
              currentSentenceIndex s' = currentSentenceIndex review_state \<and>
              length (sentencesData s') = length (sentencesData review_state) \<and>
              geminiReview (sentencesData s' ! currentSentenceIndex review_state) = currentReview s' \<and>
              userAnswer_item (sentencesData s' ! currentSentenceIndex review_state) = userAnswer review_state \<and>
              \<not> isLoading s' \<and>
              ((\<exists>m. review_ok_service (review_prompt
                             (originalSentence (sentencesData review_state ! currentSentenceIndex review_state))
                             (userAnswer review_state)) = FetchFailed m) \<or>
               (\<exists>status b. review_ok_service (review_prompt
                             (originalSentence (sentencesData review_state ! currentSentenceIndex review_state))
                             (userAnswer review_state)) = NotOk status b) \<or>
               (\<exists>res. review_ok_service (review_prompt
                             (originalSentence (sentencesData review_state ! currentSentenceIndex review_state))
                             (userAnswer review_state)) = RespOk res \<and> first_text res = None)
               \<longrightarrow> currentReview s' = lit ''Failed to get review. Please try again.'' \<and>
                   errorMessage s' \<noteq> []) \<and>
              (\<forall>res body. review_ok_service (review_prompt
                             (originalSentence (sentencesData review_state ! currentSentenceIndex review_state))
                             (userAnswer review_state)) = RespOk res \<and> first_text res = Some body
               \<longrightarrow> currentReview s' = trim body \<and> errorMessage s' = []))"
proof -
  have t: "trim (userAnswer review_state) \<noteq> []"
    by (simp add: review_state_def initial_state_def trim_def lit_def is_ws_def is_lt_def)
  have i: "currentSentenceIndex review_state < length (sentencesData review_state)"
    by (simp add: review_state_def initial_state_def)
  have f: "failing_service (review_prompt
       (originalSentence (sentencesData review_state ! currentSentenceIndex review_state))
       (userAnswer review_state)) = FetchFailed (lit ''Failed to fetch'')"
    by (simp add: failing_service_def)
  have k: "review_ok_service (review_prompt
       (originalSentence (sentencesData review_state ! currentSentenceIndex review_state))
       (userAnswer review_state)) = RespOk (ApiResult (Some [Candidate (Some (Content (Some [lit '' Correct. ''])))]))"
    by (simp add: review_ok_service_def ok_text_def)
  have ft: "first_text (ApiResult (Some [Candidate (Some (Content (Some [lit '' Correct. ''])))])) = Some (lit '' Correct. '')"
    by (simp add: first_text_def)
  have tr: "trim (lit '' Correct. '') = lit ''Correct.''" by code_simp
  note a = review_outcome [where fetch = failing_service and s = review_state, OF t i]
  note b = review_outcome [where fetch = review_ok_service and s = review_state, OF t i]
  show ?thesis
    by (rule conjI [OF t conjI [OF i conjI [OF f conjI [OF k conjI [OF ft conjI [OF tr conjI [OF a b]]]]]]])
qed

section \<open>The count field\<close>

lemma handleStartPractice_sent:
  assumes "selectedTenses s \<noteq> []" "\<not> js_le (numSentences s) (Num 0)"
  shows "snd (handleStartPractice fetch s) =
           [gen_prompt (chosenTenses (selectedTenses s)) (selectedThemes s) (numSentences s)]"
proof (cases "response_text (lit ''Unexpected response structure from Gemini or no content generated.'')
         (fetch (gen_prompt (chosenTenses (selectedTenses s)) (selectedThemes s) (numSentences s)))")
  case (Inl msg)
  from handleStartPractice_failed [where fetch = fetch, OF assms Inl] show ?thesis by simp
next
  case (Inr body)
  from handleStartPractice_answered [where fetch = fetch, OF assms Inr] show ?thesis by simp
qed

lemma handleStartPractice_nan:
  assumes "selectedTenses s \<noteq> []" "numSentences s = NaN"
  shows "\<exists>seen. fst (handleStartPractice fetch s) =
           s\<lparr>isLoading := False, errorMessage := msgNoSentences, generatedSentencesSet := seen,
             sentencesData := []\<rparr>"
proof -
  have g: "selectedTenses s \<noteq> []" "\<not> js_le (numSentences s) (Num 0)" using assms by simp_all
  show ?thesis
  proof (cases "response_text (lit ''Unexpected response structure from Gemini or no content generated.'')
         (fetch (gen_prompt (chosenTenses (selectedTenses s)) (selectedThemes s) (numSentences s)))")
    case (Inl msg)
    from handleStartPractice_failed [where fetch = fetch, OF g Inl]
    have "fst (handleStartPractice fetch s) =
           s\<lparr>isLoading := False, errorMessage := msgNoSentences, generatedSentencesSet := {},
             sentencesData := []\<rparr>" by simp
    then show ?thesis by blast
  next
    case (Inr body)
    from handleStartPractice_answered [where fetch = fetch, OF g Inr] assms(2)
    have "fst (handleStartPractice fetch s) =
           s\<lparr>isLoading := False, errorMessage := msgNoSentences,
             generatedSentencesSet := snd (parse_lines (split_nl (trim body)) {} []),
             sentencesData := []\<rparr>" by simp
    then show ?thesis by blast
  qed
qed

lemma handleStartPractice_keeps_count:
  "numSentences (fst (handleStartPractice fetch s)) = numSentences s"
proof (cases "selectedTenses s \<noteq> [] \<and> \<not> js_le (numSentences s) (Num 0)")
  case False
  then show ?thesis by (auto simp: handleStartPractice_def)
next
  case True
  then have g: "selectedTenses s \<noteq> []" "\<not> js_le (numSentences s) (Num 0)" by simp_all
  show ?thesis
  proof (cases "response_text (lit ''Unexpected response structure from Gemini or no content generated.'')
         (fetch (gen_prompt (chosenTenses (selectedTenses s)) (selectedThemes s) (numSentences s)))")
    case (Inl msg)
    from handleStartPractice_failed [where fetch = fetch, OF g Inl] show ?thesis by simp
  next
    case (Inr body)
    from handleStartPractice_answered [where fetch = fetch, OF g Inr] show ?thesis by simp
  qed
qed

lemma parseInt_samples:
  "parseInt [] = NaN" "parseInt (lit ''abc'') = NaN" "parseInt (lit ''25'') = Num 25"
  "parseInt (lit ''-3'') = Num (- 3)" "parseInt (lit ''0'') = Num 0"
  by code_simp+

lemma msgNoSentences_not_msgCount: "msgNoSentences \<noteq> msgCount"
  by (simp add: msgNoSentences_def msgCount_def)

text \<open>
  Claim C9. A count field that parses to \<open>NaN\<close> passes the guard \<open>numSentences <= 0\<close>: with
  at least one tense selected the begin action sends a generation request whose prompt
  asks for "NaN" sentences, and the message it leaves is not the one of the count guard
  (\<open>slice(0, NaN)\<close> is empty, so the action ends on the same screen with the message for
  an empty result). The count is stored as \<open>parseInt\<close> returns it and the begin action
  does not change it: a count above 20 is sent as it is.
\<close>

theorem nan_count_passes_guard:
  assumes "selectedTenses s \<noteq> []" and "numSentences s = NaN"
  shows "\<not> js_le (numSentences s) (Num 0) \<and>
         snd (handleStartPractice fetch s) =
           [genPrompt1 @ lit ''NaN'' @ genPrompt2 @ join_comma (selectedTenses s) @ genPrompt3 @
            (if selectedThemes s \<noteq> [] then themePrompt1 @ selectedThemes s @ themePrompt2 else [])] \<and>
         errorMessage (fst (handleStartPractice fetch s)) = msgNoSentences \<and>
         errorMessage (fst (handleStartPractice fetch s)) \<noteq> msgCount \<and>
         currentPage (fst (handleStartPractice fetch s)) = currentPage s \<and>
         sentencesData (fst (handleStartPractice fetch s)) = [] \<and>
         numSentences (fst (handleStartPractice fetch s)) = NaN \<and>
         numSentences (onChangeNumSentences v s) = parseInt v \<and>
         parseInt [] = NaN \<and> parseInt (lit ''abc'') = NaN \<and> parseInt (lit ''25'') = Num 25 \<and>
         (\<forall>k st. 20 < k \<and> numSentences st = Num k \<and> selectedTenses st \<noteq> [] \<longrightarrow>
            snd (handleStartPractice fetch st) =
              [gen_prompt (selectedTenses st) (selectedThemes st) (Num k)] \<and>
            numSentences (fst (handleStartPractice fetch st)) = Num k)"
proof -
  have g: "\<not> js_le (numSentences s) (Num 0)" using assms(2) by simp
  from handleStartPractice_nan [where fetch = fetch, OF assms] obtain seen where
    st: "fst (handleStartPractice fetch s) =
           s\<lparr>isLoading := False, errorMessage := msgNoSentences, generatedSentencesSet := seen,
             sentencesData := []\<rparr>" by blast
  have sent: "snd (handleStartPractice fetch s) =
           [genPrompt1 @ lit ''NaN'' @ genPrompt2 @ join_comma (selectedTenses s) @ genPrompt3 @
            (if selectedThemes s \<noteq> [] then themePrompt1 @ selectedThemes s @ themePrompt2 else [])]"
    using handleStartPractice_sent [where fetch = fetch, OF assms(1) g] assms
    by (simp add: gen_prompt_def chosenTenses_def)
  have big: "\<forall>k st. 20 < k \<and> numSentences st = Num k \<and> selectedTenses st \<noteq> [] \<longrightarrow>
            snd (handleStartPractice fetch st) =
              [gen_prompt (selectedTenses st) (selectedThemes st) (Num k)] \<and>
            numSentences (fst (handleStartPractice fetch st)) = Num k"
  proof (intro allI impI)
    fix k :: int and st :: app_state
    assume a: "20 < k \<and> numSentences st = Num k \<and> selectedTenses st \<noteq> []"
    then have g': "selectedTenses st \<noteq> []" "\<not> js_le (numSentences st) (Num 0)" by simp_all
    from handleStartPractice_sent [where fetch = fetch, OF g'] a
      handleStartPractice_keeps_count [of fetch st]
    show "snd (handleStartPractice fetch st) =
              [gen_prompt (selectedTenses st) (selectedThemes st) (Num k)] \<and>
            numSentences (fst (handleStartPractice fetch st)) = Num k"
      by (simp add: chosenTenses_def)
  qed
  from g sent big assms(2) show ?thesis
    unfolding st by (simp add: msgNoSentences_not_msgCount parseInt_samples onChangeNumSentences_def)
qed

theorem nan_count_passes_guard_witness:
  "selectedTenses nan_state \<noteq> [] \<and> numSentences nan_state = NaN \<and>
   snd (handleStartPractice mixed_service nan_state) =
     [genPrompt1 @ lit ''NaN'' @ genPrompt2 @ lit ''Present Simple'' @ genPrompt3] \<and>
   errorMessage (fst (handleStartPractice mixed_service nan_state)) = msgNoSentences \<and>
   (20::int) < 25 \<and>
   numSentences (onChangeNumSentences (lit ''25'') begin_state) = Num 25 \<and>
   selectedTenses (onChangeNumSentences (lit ''25'') begin_state) \<noteq> [] \<and>
   snd (handleStartPractice mixed_service (onChangeNumSentences (lit ''25'') begin_state)) =
     [gen_prompt [lit ''Present Simple''] [] (Num 25)]"
proof -
  have h1: "selectedTenses nan_state \<noteq> []" and h2: "numSentences nan_state = NaN"
    and th: "selectedThemes nan_state = []" and ts: "selectedTenses nan_state = [lit ''Present Simple'']"
    by (simp_all add: nan_state_def onChangeNumSentences_def begin_state_def initial_state_def
          parseInt_samples)
  have b: "numSentences (onChangeNumSentences (lit ''25'') begin_state) = Num 25"
     "selectedTenses (onChangeNumSentences (lit ''25'') begin_state) = [lit ''Present Simple'']"
     "selectedThemes (onChangeNumSentences (lit ''25'') begin_state) = []"
    by (simp_all add: onChangeNumSentences_def begin_state_def initial_state_def parseInt_samples)
  note t = nan_count_passes_guard [where fetch = mixed_service and s = nan_state, OF h1 h2]
  from t have "\<forall>k st. 20 < k \<and> numSentences st = Num k \<and> selectedTenses st \<noteq> [] \<longrightarrow>
            snd (handleStartPractice mixed_service st) =
              [gen_prompt (selectedTenses st) (selectedThemes st) (Num k)]" by blast
  from this [rule_format, of 25 "onChangeNumSentences (lit ''25'') begin_state"] b
  have c: "snd (handleStartPractice mixed_service (onChangeNumSentences (lit ''25'') begin_state)) =
     [gen_prompt [lit ''Present Simple''] [] (Num 25)]" by simp
  from t h1 h2 b c show ?thesis by (simp add: th ts)
qed

section \<open>The next action\<close>

lemma click_next_gated: "currentReview s = [] \<Longrightarrow> click_next s = s"
  by (simp add: click_next_def)

lemma click_next_step:
  "click_next s = s \<or>
   (currentPage (click_next s) = Practice \<and>
    currentSentenceIndex (click_next s) = currentSentenceIndex s + 1) \<or>
   (currentPage (click_next s) = Start \<and> currentSentenceIndex (click_next s) = 0)"
  by (simp add: click_next_def handleNextOrFinish_def)

lemma finish_resets_full_session:
  assumes "numSentences s = Num (int (length (sentencesData s)))"
    and "currentSentenceIndex s + 1 = length (sentencesData s)"
  shows "handleNextOrFinish s =
           s\<lparr>currentPage := Start, selectedTenses := [], selectedThemes := [],
             numSentences := Num 5, sentencesData := [], currentSentenceIndex := 0,
             userAnswer := [], currentReview := [], errorMessage := [],
             generatedSentencesSet := {}\<rparr>"
  using assms by (simp add: handleNextOrFinish_def)

lemma next_in_range_full_session:
  assumes "numSentences s = Num (int (length (sentencesData s)))"
    and "currentSentenceIndex s < length (sentencesData s)"
    and "currentPage (click_next s) = Practice"
  shows "currentSentenceIndex (click_next s) < length (sentencesData (click_next s))"
  using assms by (auto simp: click_next_def handleNextOrFinish_def split: if_splits)

lemma at_last_item_value:
  "at_last_item =
     \<lparr>currentPage = Practice, selectedTenses = [lit ''Present Simple''], selectedThemes = [],
      numSentences = Num 5, currentSentenceIndex = 1,
      sentencesData =
        [\<lparr>originalSentence = lit ''A'', userAnswer_item = lit ''x'',
          geminiReview = lit ''Correct.'', tenseUsed = lit ''Present Simple''\<rparr>,
         \<lparr>originalSentence = lit ''B'', userAnswer_item = lit ''x'',
          geminiReview = lit ''Correct.'', tenseUsed = lit ''Present Simple''\<rparr>],
      userAnswer = lit ''x'', currentReview = lit ''Correct.'', isLoading = False,
      errorMessage = [], isAuthReady = True, generatedSentencesSet = {lit ''A'', lit ''B''},
      showTenseInPractice = True\<rparr>"
  by code_simp

lemma lit_Correct_nonempty: "lit ''Correct.'' \<noteq> []" "lit ''x'' \<noteq> []" "trim (lit ''x'') \<noteq> []"
  by (simp_all add: lit_def trim_def is_ws_def is_lt_def)

text \<open>
  Claim C1 fails on the code. \<open>handleNextOrFinish\<close> compares the index with
  \<open>numSentences - 1\<close>, not with the length of \<open>sentencesData\<close>. In the session above the
  count is 5 and the service returned two sentences: at index 1, the last item, with its
  review fetched, the next action moves the index to 2 while the sequence has length 2.
  The practice screen stays, and a review at that index throws.
\<close>

theorem index_leaves_range_short_session:
  "currentPage at_last_item = Practice \<and> numSentences at_last_item = Num 5 \<and>
   currentSentenceIndex at_last_item = 1 \<and> length (sentencesData at_last_item) = 2 \<and>
   geminiReview (sentencesData at_last_item ! 1) = lit ''Correct.'' \<and>
   currentPage (click_next at_last_item) = Practice \<and>
   currentSentenceIndex (click_next at_last_item) = 2 \<and>
   length (sentencesData (click_next at_last_item)) = 2 \<and>
   handleGetReview short_service (onChangeUserAnswer (lit ''x'') (click_next at_last_item)) =
     Inl TypeError"
  unfolding at_last_item_value
  by (simp add: click_next_def handleNextOrFinish_def handleGetReview_def onChangeUserAnswer_def
        lit_Correct_nonempty)

text \<open>
  Claim C8 fails on the code for the same reason. In the same session the next action at
  the last index (index 1 of two items, review fetched) does not finish: the screen
  stays Practice, the configuration, the items and the seen set are kept, and the index
  becomes 2.
\<close>

theorem finish_not_taken_short_session:
  "currentSentenceIndex at_last_item + 1 = length (sentencesData at_last_item) \<and>
   currentReview at_last_item = lit ''Correct.'' \<and>
   currentPage (handleNextOrFinish at_last_item) = Practice \<and>
   selectedTenses (handleNextOrFinish at_last_item) = [lit ''Present Simple''] \<and>
   numSentences (handleNextOrFinish at_last_item) = Num 5 \<and>
   length (sentencesData (handleNextOrFinish at_last_item)) = 2 \<and>
   generatedSentencesSet (handleNextOrFinish at_last_item) = {lit ''A'', lit ''B''} \<and>
   currentSentenceIndex (handleNextOrFinish at_last_item) = 2"
  unfolding at_last_item_value
  by (simp add: handleNextOrFinish_def)

section \<open>The captures of the sentence pattern\<close>

text \<open>The greedy text group takes the last \<open>" ["\<close> of the line, so the tag holds no
  \<open>" ["\<close>; the match starts at the leftmost position that can succeed, which is the
  start of the line or the position after its last line terminator. With the shape of
  a match this fixes both captures.\<close>

lemma greedy_text_tag:
  "greedy_text r = Some (g1, g2) \<Longrightarrow> \<not> (\<exists>a b. g2 = a @ [0x20, 0x5B] @ b)"
proof (induction r arbitrary: g1 g2)
  case Nil
  then show ?case by simp
next
  case (Cons c cs)
  show ?case
  proof (cases "is_lt c")
    case True
    with Cons.prems have "after_text (c # cs) = Some g2" by auto
    from after_text_sound [OF this] True show ?thesis by (simp add: is_lt_def)
  next
    case False
    show ?thesis
    proof (cases "greedy_text cs")
      case (Some m)
      obtain h1 h2 where m: "m = (h1, h2)" by (cases m)
      with Some False Cons.prems have "g2 = h2" by auto
      with Cons.IH [of h1 h2] Some m show ?thesis by simp
    next
      case None
      with False Cons.prems have at: "after_text (c # cs) = Some g2" by auto
      from after_text_sound [OF at]
      have cs: "cs = [0x5B] @ g2 @ [0x5D]" and nl: "\<forall>c\<in>set g2. \<not> is_lt c" by simp_all
      show ?thesis
      proof
        assume "\<exists>a b. g2 = a @ [0x20, 0x5B] @ b"
        then obtain a b where g2: "g2 = a @ [0x20, 0x5B] @ b" by blast
        have "\<forall>c\<in>set ([0x5B] @ a). \<not> is_lt c" "\<forall>c\<in>set b. \<not> is_lt c"
          using nl g2 by (auto simp: is_lt_def)
        from greedy_text_complete [OF this]
        have "greedy_text cs \<noteq> None" by (simp add: cs g2)
        with None show False by simp
      qed
    qed
  qed
qed

lemma greedy_text_exact:
  assumes "\<forall>c\<in>set g1. \<not> is_lt c" "\<forall>c\<in>set g2. \<not> is_lt c"
    and "\<not> (\<exists>a b. g2 = a @ [0x20, 0x5B] @ b)"
  shows "greedy_text (g1 @ [0x20, 0x5B] @ g2 @ [0x5D]) = Some (g1, g2)"
proof -
  from greedy_text_complete [OF assms(1,2)] obtain h1 h2 where
    h: "greedy_text (g1 @ [0x20, 0x5B] @ g2 @ [0x5D]) = Some (h1, h2)" by auto
  from greedy_text_sound [OF h]
  have eq: "g1 @ [0x20, 0x5B] @ g2 @ [0x5D] = h1 @ [0x20, 0x5B] @ h2 @ [0x5D]" by simp
  from greedy_text_tag [OF h] have nt: "\<not> (\<exists>a b. h2 = a @ [0x20, 0x5B] @ b)" .
  from eq have "(g1 @ [0x20, 0x5B] @ g2) @ [0x5D] = (h1 @ [0x20, 0x5B] @ h2) @ [0x5D]" by simp
  then have e: "g1 @ [0x20, 0x5B] @ g2 = h1 @ [0x20, 0x5B] @ h2" by (simp only: append1_eq_conv)
  then have "\<exists>us. (g1 = h1 @ us \<and> us @ [0x20, 0x5B] @ g2 = [0x20, 0x5B] @ h2) \<or>
                  (g1 @ us = h1 \<and> [0x20, 0x5B] @ g2 = us @ [0x20, 0x5B] @ h2)"
    by (simp only: append_eq_append_conv2)
  then obtain us where
    us: "(g1 = h1 @ us \<and> us @ [0x20, 0x5B] @ g2 = [0x20, 0x5B] @ h2) \<or>
         (g1 @ us = h1 \<and> [0x20, 0x5B] @ g2 = us @ [0x20, 0x5B] @ h2)" by blast
  have "us = []"
  proof (rule ccontr)
    assume ne: "us \<noteq> []"
    from us show False
    proof
      assume a: "g1 = h1 @ us \<and> us @ [0x20, 0x5B] @ g2 = [0x20, 0x5B] @ h2"
      then have "\<exists>a. h2 = a @ [0x20, 0x5B] @ g2"
        using ne by (cases us; cases "tl us") (auto simp: Cons_eq_append_conv)
      with nt show False by blast
    next
      assume a: "g1 @ us = h1 \<and> [0x20, 0x5B] @ g2 = us @ [0x20, 0x5B] @ h2"
      then have "\<exists>a. g2 = a @ [0x20, 0x5B] @ h2"
        using ne by (cases us; cases "tl us") (auto simp: Cons_eq_append_conv)
      with assms(3) show False by blast
    qed
  qed
  with us have "g1 = h1" "g2 = h2" by auto
  with h show ?thesis by simp
qed

lemma greedy_text_no_lt:
  assumes "greedy_text r \<noteq> None"
  shows "\<forall>c\<in>set r. \<not> is_lt c"
proof -
  from assms obtain g1 g2 where "greedy_text r = Some (g1, g2)" by auto
  from greedy_text_sound [OF this] show ?thesis by (auto simp: is_lt_def)
qed

lemma match_line_exact:
  assumes "\<forall>c\<in>set g1. \<not> is_lt c" "\<forall>c\<in>set g2. \<not> is_lt c"
    and "\<not> (\<exists>a b. g2 = a @ [0x20, 0x5B] @ b)"
    and "pre = [] \<or> is_lt (last pre)"
  shows "match_line (pre @ g1 @ [0x20, 0x5B] @ g2 @ [0x5D]) = Some (g1, g2)"
  using assms(4)
proof (induction pre)
  case Nil
  from greedy_text_exact [OF assms(1-3)] show ?case
    by (cases "g1 @ [0x20, 0x5B] @ g2 @ [0x5D]") auto
next
  case (Cons c pre)
  from Cons.prems have l: "is_lt (last (c # pre))" by simp
  have "greedy_text ((c # pre) @ g1 @ [0x20, 0x5B] @ g2 @ [0x5D]) = None"
  proof (rule ccontr)
    assume "greedy_text ((c # pre) @ g1 @ [0x20, 0x5B] @ g2 @ [0x5D]) \<noteq> None"
    from greedy_text_no_lt [OF this] have "\<not> is_lt (last (c # pre))"
      by (metis UnCI last_in_set list.distinct(1) set_append)
    with l show False by simp
  qed
  moreover have "pre = [] \<or> is_lt (last pre)" using l by (cases pre) auto
  ultimately show ?case using Cons.IH by simp
qed

lemma match_line_start:
  "match_line l = Some (g1, g2) \<Longrightarrow>
     \<exists>pre. l = pre @ g1 @ [0x20, 0x5B] @ g2 @ [0x5D] \<and> (pre = [] \<or> is_lt (last pre))"
proof (induction l)
  case Nil
  then show ?case by simp
next
  case (Cons c cs)
  show ?case
  proof (cases "greedy_text (c # cs)")
    case (Some m)
    with Cons.prems have "greedy_text (c # cs) = Some (g1, g2)" by simp
    from greedy_text_sound [OF this] show ?thesis by (metis append_Nil)
  next
    case None
    with Cons.prems have m: "match_line cs = Some (g1, g2)" by simp
    from Cons.IH [OF m] obtain pre where
      pre: "cs = pre @ g1 @ [0x20, 0x5B] @ g2 @ [0x5D]" "pre = [] \<or> is_lt (last pre)" by blast
    from match_line_sound [OF m]
    have nl: "\<forall>c\<in>set g1. \<not> is_lt c" "\<forall>c\<in>set g2. \<not> is_lt c" by simp_all
    have "is_lt (last (c # pre))"
    proof (cases pre)
      case Nil
      have "is_lt c"
      proof (rule ccontr)
        assume "\<not> is_lt c"
        with nl have "\<forall>x\<in>set (c # g1). \<not> is_lt x" by simp
        from greedy_text_complete [OF this nl(2)] None pre(1) Nil show False by simp
      qed
      with Nil show ?thesis by simp
    next
      case (Cons p ps)
      with pre(2) show ?thesis by simp
    qed
    moreover have "c # cs = (c # pre) @ g1 @ [0x20, 0x5B] @ g2 @ [0x5D]" using pre(1) by simp
    ultimately show ?thesis by blast
  qed
qed

lemma match_line_tag:
  "match_line l = Some (g1, g2) \<Longrightarrow> \<not> (\<exists>a b. g2 = a @ [0x20, 0x5B] @ b)"
proof (induction l)
  case Nil
  then show ?case by simp
next
  case (Cons c cs)
  show ?case
  proof (cases "greedy_text (c # cs)")
    case (Some m)
    with Cons.prems have "greedy_text (c # cs) = Some (g1, g2)" by simp
    from greedy_text_tag [OF this] show ?thesis .
  next
    case None
    with Cons show ?thesis by simp
  qed
qed

lemma match_line_iff:
  "match_line l = Some (g1, g2) \<longleftrightarrow>
     (\<exists>pre. l = pre @ g1 @ lit '' ['' @ g2 @ lit '']'' \<and> (pre = [] \<or> is_lt (last pre))) \<and>
     (\<forall>c\<in>set g1. \<not> is_lt c) \<and> (\<forall>c\<in>set g2. \<not> is_lt c) \<and>
     \<not> (\<exists>a b. g2 = a @ lit '' ['' @ b)"
proof
  assume m: "match_line l = Some (g1, g2)"
  from match_line_start [OF m] match_line_sound [OF m] match_line_tag [OF m]
  show "(\<exists>pre. l = pre @ g1 @ lit '' ['' @ g2 @ lit '']'' \<and> (pre = [] \<or> is_lt (last pre))) \<and>
     (\<forall>c\<in>set g1. \<not> is_lt c) \<and> (\<forall>c\<in>set g2. \<not> is_lt c) \<and>
     \<not> (\<exists>a b. g2 = a @ lit '' ['' @ b)"
    by (simp add: lit_def)
next
  assume r: "(\<exists>pre. l = pre @ g1 @ lit '' ['' @ g2 @ lit '']'' \<and> (pre = [] \<or> is_lt (last pre))) \<and>
     (\<forall>c\<in>set g1. \<not> is_lt c) \<and> (\<forall>c\<in>set g2. \<not> is_lt c) \<and>
     \<not> (\<exists>a b. g2 = a @ lit '' ['' @ b)"
  then obtain pre where pre: "l = pre @ g1 @ [0x20, 0x5B] @ g2 @ [0x5D]" "pre = [] \<or> is_lt (last pre)"
    by (auto simp: lit_def)
  from r have c: "\<forall>c\<in>set g1. \<not> is_lt c" "\<forall>c\<in>set g2. \<not> is_lt c"
    "\<not> (\<exists>a b. g2 = a @ [0x20, 0x5B] @ b)" by (simp_all add: lit_def)
  from match_line_exact [OF c pre(2)] pre(1) show "match_line l = Some (g1, g2)" by simp
qed

section \<open>Deduplication\<close>

lemma distinct_count_list_le: "distinct xs \<Longrightarrow> count_list xs x \<le> 1"
  by (induction xs) auto

lemma distinct_count_list_one: "distinct xs \<Longrightarrow> x \<in> set xs \<Longrightarrow> count_list xs x = 1"
  by (induction xs) auto

lemma slice0_append_drop: "slice0 xs n @ drop (length (slice0 xs n)) xs = xs"
proof (cases n)
  case NaN
  then show ?thesis by simp
next
  case (Num k)
  have "take m xs @ drop (length (take m xs)) xs = xs" for m
    by (cases "m \<le> length xs") (simp_all add: min_def)
  with Num show ?thesis by simp
qed

lemma slice0_all: "int (length xs) \<le> k \<Longrightarrow> slice0 xs (Num k) = xs"
  by simp

lemma slice0_length_nonneg: "0 \<le> k \<Longrightarrow> length (slice0 xs (Num k)) = min (nat k) (length xs)"
  by (simp add: min_def)

lemma spaced_parse:
  "parse_lines (split_nl (trim spaced_text)) {} [] =
     ([\<lparr>sentence = lit ''A'', tense = lit ''Present Simple''\<rparr>,
       \<lparr>sentence = lit ''B'', tense = lit ''Present Simple''\<rparr>],
      {lit ''A'', lit ''B''})"
  by code_simp

lemma spaced_lines:
  "split_nl (trim spaced_text) =
     [lit ''A [Present Simple]'', lit ''A  [Past Simple]'', lit ''B [Present Simple]'']"
  "match_line (lit ''A [Present Simple]'') = Some (lit ''A'', lit ''Present Simple'')"
  "match_line (lit ''A  [Past Simple]'') = Some (lit ''A '', lit ''Past Simple'')"
  "trim (lit ''A '') = lit ''A''" "trim (lit ''A'') = lit ''A''"
  by code_simp+

text \<open>
  Claim C6. When the service answers, the generation call returns the first \<open>count\<close>
  items of a sequence in which each sentence text occurs once. That sequence holds
  exactly the trimmed texts of the matching lines that were not in the seen set before
  the call, each paired with the trimmed tag of such a line: a parsed sentence already
  in the seen set is dropped, every other one is in the seen set after the call and is
  emitted exactly once, however many lines carry it. When the count is not below the
  length of the sequence, the whole sequence is returned. The practice items that the
  begin action builds have pairwise different sentences.
\<close>

theorem duplicate_sentences_emitted_once:
  assumes "fetch (gen_prompt (chosenTenses tenses) themes n) = RespOk res"
    and "first_text res = Some body"
    and "generateSentences fetch tenses themes n used s = (r, used', s', sent)"
  shows "(\<exists>items rest. r = Some items \<and>
            distinct (map sentence (items @ rest)) \<and>
            (\<forall>x. count_list (map sentence items) x \<le> 1) \<and>
            sentence ` set (items @ rest) =
              {trim g1 | g1 g2 l. l \<in> set (split_nl (trim body)) \<and> match_line l = Some (g1, g2)} - used \<and>
            used' =
              used \<union> {trim g1 | g1 g2 l. l \<in> set (split_nl (trim body)) \<and> match_line l = Some (g1, g2)} \<and>
            (\<forall>p\<in>set (items @ rest). \<exists>l\<in>set (split_nl (trim body)). \<exists>g1 g2.
               match_line l = Some (g1, g2) \<and> sentence p = trim g1 \<and> tense p = trim g2) \<and>
            (\<forall>k. n = Num k \<and> 0 \<le> k \<longrightarrow> length items = min (nat k) (length (items @ rest))) \<and>
            (\<forall>k. n = Num k \<and> int (length (items @ rest)) \<le> k \<longrightarrow> rest = []) \<and>
            (\<forall>l\<in>set (split_nl (trim body)). \<forall>g1 g2. match_line l = Some (g1, g2) \<longrightarrow>
               (trim g1 \<in> used \<longrightarrow> trim g1 \<notin> sentence ` set (items @ rest)) \<and>
               (trim g1 \<notin> used \<longrightarrow>
                  trim g1 \<in> used' \<and> count_list (map sentence (items @ rest)) (trim g1) = 1))) \<and>
         (\<forall>st. selectedTenses st \<noteq> [] \<and> \<not> js_le (numSentences st) (Num 0) \<longrightarrow>
            distinct (map originalSentence (sentencesData (fst (handleStartPractice fetch st)))))"
proof (rule conjI)
  let ?ls = "split_nl (trim body)"
  let ?P = "fst (parse_lines ?ls used [])"
  let ?E = "{trim g1 | g1 g2 l. l \<in> set ?ls \<and> match_line l = Some (g1, g2)}"
  let ?items = "slice0 ?P n"
  let ?rest = "drop (length ?items) ?P"
  from generateSentences_ok [where fetch = fetch and used = used and s = s,
         OF response_text_ok [OF assms(1,2)]] assms(3)
  have r: "r = Some ?items" and u: "used' = snd (parse_lines ?ls used [])" by simp_all
  have whole: "?items @ ?rest = ?P" by (rule slice0_append_drop)
  have d: "distinct (map sentence ?P)" by (rule parse_lines_distinct) simp_all
  have u': "used' = used \<union> ?E" using u parse_lines_used [of ?ls used "[]"] by simp
  have "sentence ` set ?P = used' - used"
    using parse_lines_sentences [of ?ls used "[]"] u by simp
  also have "\<dots> = ?E - used" unfolding u' by blast
  finally have sp: "sentence ` set ?P = ?E - used" .
  have di: "distinct (map sentence ?items)" using d by (rule slice0_distinct)
  have c1: "\<forall>x. count_list (map sentence ?items) x \<le> 1"
    using distinct_count_list_le [OF di] by blast
  have src: "\<forall>p\<in>set ?P. \<exists>l\<in>set ?ls. \<exists>g1 g2.
               match_line l = Some (g1, g2) \<and> sentence p = trim g1 \<and> tense p = trim g2"
    by (rule parsed_from_lines)
  have len: "\<forall>k. n = Num k \<and> 0 \<le> k \<longrightarrow> length ?items = min (nat k) (length ?P)"
    by (auto simp: min_def)
  have all: "\<forall>k. n = Num k \<and> int (length ?P) \<le> k \<longrightarrow> ?rest = []"
    by auto
  have each: "\<forall>l\<in>set ?ls. \<forall>g1 g2. match_line l = Some (g1, g2) \<longrightarrow>
               (trim g1 \<in> used \<longrightarrow> trim g1 \<notin> sentence ` set ?P) \<and>
               (trim g1 \<notin> used \<longrightarrow>
                  trim g1 \<in> used' \<and> count_list (map sentence ?P) (trim g1) = 1)"
  proof (intro ballI allI impI conjI)
    fix l g1 g2
    assume l: "l \<in> set ?ls" and m: "match_line l = Some (g1, g2)"
    then have e: "trim g1 \<in> ?E" by blast
    { assume "trim g1 \<in> used"
      with sp show "trim g1 \<notin> sentence ` set ?P" by blast }
    { assume n: "trim g1 \<notin> used"
      from e u' show "trim g1 \<in> used'" by blast
      from e n sp have "trim g1 \<in> set (map sentence ?P)" by auto
      with d show "count_list (map sentence ?P) (trim g1) = 1"
        by (rule distinct_count_list_one) }
  qed
  show "\<exists>items rest. r = Some items \<and>
            distinct (map sentence (items @ rest)) \<and>
            (\<forall>x. count_list (map sentence items) x \<le> 1) \<and>
            sentence ` set (items @ rest) = ?E - used \<and>
            used' = used \<union> ?E \<and>
            (\<forall>p\<in>set (items @ rest). \<exists>l\<in>set ?ls. \<exists>g1 g2.
               match_line l = Some (g1, g2) \<and> sentence p = trim g1 \<and> tense p = trim g2) \<and>
            (\<forall>k. n = Num k \<and> 0 \<le> k \<longrightarrow> length items = min (nat k) (length (items @ rest))) \<and>
            (\<forall>k. n = Num k \<and> int (length (items @ rest)) \<le> k \<longrightarrow> rest = []) \<and>
            (\<forall>l\<in>set ?ls. \<forall>g1 g2. match_line l = Some (g1, g2) \<longrightarrow>
               (trim g1 \<in> used \<longrightarrow> trim g1 \<notin> sentence ` set (items @ rest)) \<and>
               (trim g1 \<notin> used \<longrightarrow>
                  trim g1 \<in> used' \<and> count_list (map sentence (items @ rest)) (trim g1) = 1))"
    apply (rule exI [of _ ?items])
    apply (rule exI [of _ ?rest])
    apply (simp only: whole)
    using r d c1 sp u' src len all each apply blast
    done
next
  show "\<forall>st. selectedTenses st \<noteq> [] \<and> \<not> js_le (numSentences st) (Num 0) \<longrightarrow>
            distinct (map originalSentence (sentencesData (fst (handleStartPractice fetch st))))"
  proof (intro allI impI)
    fix st :: app_state
    assume g: "selectedTenses st \<noteq> [] \<and> \<not> js_le (numSentences st) (Num 0)"
    let ?p = "gen_prompt (chosenTenses (selectedTenses st)) (selectedThemes st) (numSentences st)"
    show "distinct (map originalSentence (sentencesData (fst (handleStartPractice fetch st))))"
    proof (cases "response_text (lit ''Unexpected response structure from Gemini or no content generated.'')
                    (fetch ?p)")
      case (Inl msg)
      from g handleStartPractice_failed [where fetch = fetch and s = st, OF _ _ Inl]
      show ?thesis by simp
    next
      case (Inr b)
      have "distinct (map sentence (fst (parse_lines (split_nl (trim b)) {} [])))"
        by (rule parse_lines_distinct) simp_all
      then have "distinct (map sentence (slice0 (fst (parse_lines (split_nl (trim b)) {} [])) (numSentences st)))"
        by (rule slice0_distinct)
      with g handleStartPractice_answered [where fetch = fetch and s = st, OF _ _ Inr]
      show ?thesis by (simp add: comp_def)
    qed
  qed
qed


theorem duplicate_sentences_emitted_once_witness:
  "spaced_service (gen_prompt (chosenTenses [lit ''Present Simple'']) [] (Num 5)) =
     RespOk (ApiResult (Some [Candidate (Some (Content (Some [spaced_text])))])) \<and>
   first_text (ApiResult (Some [Candidate (Some (Content (Some [spaced_text])))])) = Some spaced_text \<and>
   generateSentences spaced_service [lit ''Present Simple''] [] (Num 5) {} initial_state =
     (Some [\<lparr>sentence = lit ''A'', tense = lit ''Present Simple''\<rparr>,
            \<lparr>sentence = lit ''B'', tense = lit ''Present Simple''\<rparr>], {lit ''A'', lit ''B''},
      initial_state, [gen_prompt [lit ''Present Simple''] [] (Num 5)]) \<and>
   lit ''A [Present Simple]'' \<in> set (split_nl (trim spaced_text)) \<and>
   match_line (lit ''A [Present Simple]'') = Some (lit ''A'', lit ''Present Simple'') \<and>
   lit ''A  [Past Simple]'' \<in> set (split_nl (trim spaced_text)) \<and>
   match_line (lit ''A  [Past Simple]'') = Some (lit ''A '', lit ''Past Simple'') \<and>
   lit ''A '' \<noteq> lit ''A'' \<and> trim (lit ''A '') = lit ''A'' \<and> trim (lit ''A '') \<notin> {} \<and>
   trim (lit ''A '') \<in> {lit ''A'', lit ''B''} \<and>
   count_list (map sentence [\<lparr>sentence = lit ''A'', tense = lit ''Present Simple''\<rparr>,
                             \<lparr>sentence = lit ''B'', tense = lit ''Present Simple''\<rparr>])
     (trim (lit ''A '')) = 1 \<and>
   selectedTenses (initial_state\<lparr>selectedTenses := [lit ''Present Simple'']\<rparr>) \<noteq> [] \<and>
   \<not> js_le (numSentences (initial_state\<lparr>selectedTenses := [lit ''Present Simple'']\<rparr>)) (Num 0) \<and>
   distinct (map originalSentence (sentencesData (fst (handleStartPractice spaced_service
      (initial_state\<lparr>selectedTenses := [lit ''Present Simple'']\<rparr>)))))"
proof -
  let ?A = "\<lparr>sentence = lit ''A'', tense = lit ''Present Simple''\<rparr>"
  let ?B = "\<lparr>sentence = lit ''B'', tense = lit ''Present Simple''\<rparr>"
  have f: "first_text (ApiResult (Some [Candidate (Some (Content (Some [spaced_text])))])) = Some spaced_text"
    by (simp add: first_text_def)
  have m: "spaced_service (gen_prompt (chosenTenses [lit ''Present Simple'']) [] (Num 5)) =
             RespOk (ApiResult (Some [Candidate (Some (Content (Some [spaced_text])))]))"
    by (simp add: spaced_service_def ok_text_def)
  have c: "chosenTenses [lit ''Present Simple''] = [lit ''Present Simple'']"
    by (simp add: chosenTenses_def)
  have g: "generateSentences spaced_service [lit ''Present Simple''] [] (Num 5) {} initial_state =
     (Some [?A, ?B], {lit ''A'', lit ''B''},
      initial_state, [gen_prompt [lit ''Present Simple''] [] (Num 5)])"
    using generateSentences_ok [where fetch = spaced_service and used = "{}" and s = initial_state,
            OF response_text_ok [OF m f]]
    by (simp add: spaced_parse c initial_state_def)
  have l1: "lit ''A [Present Simple]'' \<in> set (split_nl (trim spaced_text))"
    and l2: "lit ''A  [Past Simple]'' \<in> set (split_nl (trim spaced_text))"
    by (simp_all add: spaced_lines(1))
  note m1 = spaced_lines(2) and m2 = spaced_lines(3) and t = spaced_lines(4)
  have ne: "lit ''A '' \<noteq> lit ''A''" by (simp add: lit_def)
  have u: "trim (lit ''A '') \<notin> {}" by simp
  have h: "selectedTenses (initial_state\<lparr>selectedTenses := [lit ''Present Simple'']\<rparr>) \<noteq> [] \<and>
   \<not> js_le (numSentences (initial_state\<lparr>selectedTenses := [lit ''Present Simple'']\<rparr>)) (Num 0)"
    by (simp add: initial_state_def)
  note inst = duplicate_sentences_emitted_once [where fetch = spaced_service, OF m f g]
  note i1 = inst [THEN conjunct1] and i2 = inst [THEN conjunct2]
  from i1 have "\<exists>(items :: parsed list) rest.
      \<forall>l\<in>set (split_nl (trim spaced_text)). \<forall>g1 g2. match_line l = Some (g1, g2) \<longrightarrow>
               (trim g1 \<in> {} \<longrightarrow> trim g1 \<notin> sentence ` set (items @ rest)) \<and>
               (trim g1 \<notin> {} \<longrightarrow>
                  trim g1 \<in> {lit ''A'', lit ''B''} \<and>
                  count_list (map sentence (items @ rest)) (trim g1) = 1)"
    by (elim exE conjE) (intro exI, assumption)
  then obtain items :: "parsed list" and rest where
    e: "\<forall>l\<in>set (split_nl (trim spaced_text)). \<forall>g1 g2. match_line l = Some (g1, g2) \<longrightarrow>
               (trim g1 \<in> {} \<longrightarrow> trim g1 \<notin> sentence ` set (items @ rest)) \<and>
               (trim g1 \<notin> {} \<longrightarrow>
                  trim g1 \<in> {lit ''A'', lit ''B''} \<and>
                  count_list (map sentence (items @ rest)) (trim g1) = 1)"
    by blast
  from e [rule_format, OF l2 m2] u have seen: "trim (lit ''A '') \<in> {lit ''A'', lit ''B''}"
    by (simp only: fst_conv) blast
  have cnt: "count_list (map sentence [?A, ?B]) (trim (lit ''A '')) = 1"
    by (simp add: t) (simp add: lit_def)
  from i2 [rule_format, OF h] have d2: "distinct (map originalSentence (sentencesData (fst (handleStartPractice spaced_service
      (initial_state\<lparr>selectedTenses := [lit ''Present Simple'']\<rparr>)))))" .
  from h have h1: "selectedTenses (initial_state\<lparr>selectedTenses := [lit ''Present Simple'']\<rparr>) \<noteq> []"
    and h2: "\<not> js_le (numSentences (initial_state\<lparr>selectedTenses := [lit ''Present Simple'']\<rparr>)) (Num 0)"
    by simp_all
  show ?thesis by (intro conjI m f g l1 m1 l2 m2 ne t u seen cnt h1 h2 d2)
qed

section \<open>Tolerance of malformed lines\<close>

lemma mixed_lines:
  "split_nl (trim mixed_text) =
     [lit ''A [Present Simple]'', lit ''no tag here'', lit ''A [Past Simple]'', lit ''B [Present Simple]'']"
  "match_line (lit ''no tag here'') = None"
  "match_line (lit ''B [Present Simple]'') = Some (lit ''B'', lit ''Present Simple'')"
  "match_line (lit ''a [b] [c]'') = Some (lit ''a [b]'', lit ''c'')"
  "match_line (lit ''a [b]c]'') = Some (lit ''a'', lit ''b]c'')"
  by code_simp+

lemma mixed_parse_seen:
  "parse_lines (split_nl (trim mixed_text)) {lit ''A'', lit ''B''} [] = ([], {lit ''A'', lit ''B''})"
  by code_simp

text \<open>
  Claim C5 as stated fails: a well-formed line does not always give a non-empty result.
  The response below has three well-formed lines and one malformed line; with a count
  that is \<open>NaN\<close> (which the begin action lets through) or 0, \<open>slice\<close> returns the empty
  sequence, and the begin action ends on the Start screen with no item. The result is
  also empty when the sentences of the well-formed lines are all in the seen set.
\<close>

theorem wellformed_lines_empty_result_counterexample:
  "lit ''no tag here'' \<in> set (split_nl (trim mixed_text)) \<and>
   match_line (lit ''no tag here'') = None \<and>
   lit ''B [Present Simple]'' \<in> set (split_nl (trim mixed_text)) \<and>
   match_line (lit ''B [Present Simple]'') = Some (lit ''B'', lit ''Present Simple'') \<and>
   fst (generateSentences mixed_service [lit ''Present Simple''] [] NaN {} initial_state) = Some [] \<and>
   fst (generateSentences mixed_service [lit ''Present Simple''] [] (Num 0) {} initial_state) = Some [] \<and>
   fst (generateSentences mixed_service [lit ''Present Simple''] [] (Num 5) {lit ''A'', lit ''B''}
          initial_state) = Some [] \<and>
   selectedTenses nan_state = [lit ''Present Simple''] \<and> numSentences nan_state = NaN \<and>
   currentPage (fst (handleStartPractice mixed_service nan_state)) = Start \<and>
   sentencesData (fst (handleStartPractice mixed_service nan_state)) = [] \<and>
   errorMessage (fst (handleStartPractice mixed_service nan_state)) = msgNoSentences"
proof -
  have f: "first_text (ApiResult (Some [Candidate (Some (Content (Some [mixed_text])))])) = Some mixed_text"
    by (simp add: first_text_def)
  have m: "mixed_service p = RespOk (ApiResult (Some [Candidate (Some (Content (Some [mixed_text])))]))" for p
    by (simp add: mixed_service_def ok_text_def)
  have g: "fst (generateSentences mixed_service [lit ''Present Simple''] [] n used initial_state) =
             Some (slice0 (fst (parse_lines (split_nl (trim mixed_text)) used [])) n)" for n used
    using generateSentences_ok [where fetch = mixed_service and used = used and s = initial_state
            and tenses = "[lit ''Present Simple'']" and themes = "[]" and n = n,
            OF response_text_ok [OF m f]]
    by simp
  have l: "lit ''no tag here'' \<in> set (split_nl (trim mixed_text))"
     "lit ''B [Present Simple]'' \<in> set (split_nl (trim mixed_text))"
    by (simp_all add: mixed_lines(1))
  have n: "selectedTenses nan_state = [lit ''Present Simple'']" "numSentences nan_state = NaN"
    "currentPage nan_state = Start"
    by (simp_all add: nan_state_def onChangeNumSentences_def begin_state_def initial_state_def
          parseInt_samples)
  from n have ne: "selectedTenses nan_state \<noteq> []" by simp
  from handleStartPractice_nan [where fetch = mixed_service, OF ne n(2)] obtain seen where
    st: "fst (handleStartPractice mixed_service nan_state) =
           nan_state\<lparr>isLoading := False, errorMessage := msgNoSentences, generatedSentencesSet := seen,
             sentencesData := []\<rparr>" by blast
  show ?thesis
    unfolding st g by (simp add: l n mixed_lines(2,3) mixed_parse mixed_parse_seen)
qed


text \<open>
  Claim C5, amended. The text of the response is split into lines and each line is
  matched against the pattern. A line matches exactly when it is \<open>pre\<close>, \<open>text\<close>, a
  space, \<open>[\<close>, \<open>tag\<close>, \<open>]\<close>, where the closing bracket is the last code unit of the
  line, \<open>pre\<close> is empty or ends in a line terminator, neither capture holds a line
  terminator and the tag holds no \<open>" ["\<close> (the text is captured greedily, and the tag
  runs up to the closing bracket at the end of the line); the captures are then this
  text and this tag. Lines that do not match do not fail the call and do not change its
  result. For a count of at least 1, the result is not empty as soon as one line matches
  with a sentence that is not yet in the seen set; in the begin action, which passes an
  empty set, one matching line is enough to reach the Practice screen with a non-empty
  session.
\<close>

theorem malformed_lines_dropped_positive_count:
  assumes "fetch (gen_prompt (chosenTenses tenses) themes (Num n)) = RespOk res"
    and "first_text res = Some body"
    and "1 \<le> n"
  shows "(\<exists>items. fst (generateSentences fetch tenses themes (Num n) used s) = Some items \<and>
            items = slice0 (fst (parse_lines (filter (\<lambda>l. match_line l \<noteq> None)
                                   (split_nl (trim body))) used [])) (Num n) \<and>
            ((\<exists>l\<in>set (split_nl (trim body)). \<exists>g1 g2. match_line l = Some (g1, g2) \<and> trim g1 \<notin> used)
               \<longrightarrow> items \<noteq> [])) \<and>
         (\<forall>st. selectedTenses st = tenses \<and> tenses \<noteq> [] \<and> selectedThemes st = themes \<and>
               numSentences st = Num n \<and>
               (\<exists>l\<in>set (split_nl (trim body)). match_line l \<noteq> None) \<longrightarrow>
               currentPage (fst (handleStartPractice fetch st)) = Practice \<and>
               sentencesData (fst (handleStartPractice fetch st)) \<noteq> []) \<and>
         (\<forall>l g1 g2. match_line l = Some (g1, g2) \<longleftrightarrow>
            (\<exists>pre. l = pre @ g1 @ lit '' ['' @ g2 @ lit '']'' \<and> (pre = [] \<or> is_lt (last pre))) \<and>
            (\<forall>c\<in>set g1. \<not> is_lt c) \<and> (\<forall>c\<in>set g2. \<not> is_lt c) \<and>
            \<not> (\<exists>a b. g2 = a @ lit '' ['' @ b))"
proof (intro conjI)
  let ?ls = "split_nl (trim body)"
  have ok: "generateSentences fetch tenses themes (Num n) used s =
           (Some (slice0 (fst (parse_lines ?ls used [])) (Num n)),
            snd (parse_lines ?ls used []),
            s\<lparr>isLoading := False, errorMessage := []\<rparr>,
            [gen_prompt (chosenTenses tenses) themes (Num n)])"
    by (rule generateSentences_ok [where fetch = fetch, OF response_text_ok [OF assms(1,2)]])
  have ne: "slice0 (fst (parse_lines ?ls used [])) (Num n) \<noteq> []"
    if "\<exists>l\<in>set ?ls. \<exists>g1 g2. match_line l = Some (g1, g2) \<and> trim g1 \<notin> used"
  proof -
    from that obtain l g1 g2 where "l \<in> set ?ls" "match_line l = Some (g1, g2)" "trim g1 \<notin> used"
      by blast
    then have "fst (parse_lines ?ls used []) \<noteq> []" by (rule parse_lines_nonempty)
    from slice0_nonempty [OF this assms(3)] show ?thesis .
  qed
  show "\<exists>items. fst (generateSentences fetch tenses themes (Num n) used s) = Some items \<and>
            items = slice0 (fst (parse_lines (filter (\<lambda>l. match_line l \<noteq> None) ?ls) used [])) (Num n) \<and>
            ((\<exists>l\<in>set ?ls. \<exists>g1 g2. match_line l = Some (g1, g2) \<and> trim g1 \<notin> used)
               \<longrightarrow> items \<noteq> [])"
  proof (intro exI [of _ "slice0 (fst (parse_lines ?ls used [])) (Num n)"] conjI)
    show "fst (generateSentences fetch tenses themes (Num n) used s) =
            Some (slice0 (fst (parse_lines ?ls used [])) (Num n))"
      by (simp only: ok fst_conv)
    show "slice0 (fst (parse_lines ?ls used [])) (Num n) =
            slice0 (fst (parse_lines (filter (\<lambda>l. match_line l \<noteq> None) ?ls) used [])) (Num n)"
      by (simp only: parse_lines_filter)
    show "(\<exists>l\<in>set ?ls. \<exists>g1 g2. match_line l = Some (g1, g2) \<and> trim g1 \<notin> used)
            \<longrightarrow> slice0 (fst (parse_lines ?ls used [])) (Num n) \<noteq> []"
      using ne by blast
  qed
next
  let ?ls = "split_nl (trim body)"
  show "\<forall>st. selectedTenses st = tenses \<and> tenses \<noteq> [] \<and> selectedThemes st = themes \<and>
               numSentences st = Num n \<and> (\<exists>l\<in>set ?ls. match_line l \<noteq> None) \<longrightarrow>
               currentPage (fst (handleStartPractice fetch st)) = Practice \<and>
               sentencesData (fst (handleStartPractice fetch st)) \<noteq> []"
  proof (intro allI impI)
    fix st :: app_state
    assume a: "selectedTenses st = tenses \<and> tenses \<noteq> [] \<and> selectedThemes st = themes \<and>
               numSentences st = Num n \<and> (\<exists>l\<in>set ?ls. match_line l \<noteq> None)"
    then have g: "selectedTenses st \<noteq> []" "\<not> js_le (numSentences st) (Num 0)"
      using assms(3) by simp_all
    from a assms(1) have "fetch (gen_prompt (chosenTenses (selectedTenses st)) (selectedThemes st)
                            (numSentences st)) = RespOk res" by simp
    note run = handleStartPractice_answered [where fetch = fetch, OF g response_text_ok [OF this assms(2)]]
    from a obtain l g1 g2 where "l \<in> set ?ls" "match_line l = Some (g1, g2)" "trim g1 \<notin> {}"
      by auto
    then have "fst (parse_lines ?ls {} []) \<noteq> []" by (rule parse_lines_nonempty)
    from slice0_nonempty [OF this assms(3)] a
    have "slice0 (fst (parse_lines ?ls {} [])) (numSentences st) \<noteq> []" by simp
    with run show "currentPage (fst (handleStartPractice fetch st)) = Practice \<and>
               sentencesData (fst (handleStartPractice fetch st)) \<noteq> []" by simp
  qed
next
  show "\<forall>l g1 g2. match_line l = Some (g1, g2) \<longleftrightarrow>
            (\<exists>pre. l = pre @ g1 @ lit '' ['' @ g2 @ lit '']'' \<and> (pre = [] \<or> is_lt (last pre))) \<and>
            (\<forall>c\<in>set g1. \<not> is_lt c) \<and> (\<forall>c\<in>set g2. \<not> is_lt c) \<and>
            \<not> (\<exists>a b. g2 = a @ lit '' ['' @ b)"
    by (intro allI) (rule match_line_iff)
qed

theorem malformed_lines_dropped_positive_count_witness:
  "mixed_service (gen_prompt (chosenTenses [lit ''Present Simple'']) [] (Num 5)) =
     RespOk (ApiResult (Some [Candidate (Some (Content (Some [mixed_text])))])) \<and>
   first_text (ApiResult (Some [Candidate (Some (Content (Some [mixed_text])))])) = Some mixed_text \<and>
   (1::int) \<le> 5 \<and>
   lit ''no tag here'' \<in> set (split_nl (trim mixed_text)) \<and>
   match_line (lit ''no tag here'') = None \<and>
   lit ''B [Present Simple]'' \<in> set (split_nl (trim mixed_text)) \<and>
   match_line (lit ''B [Present Simple]'') = Some (lit ''B'', lit ''Present Simple'') \<and>
   trim (lit ''B'') \<notin> {} \<and>
   (\<exists>items. fst (generateSentences mixed_service [lit ''Present Simple''] [] (Num 5) {} initial_state)
              = Some items \<and> items \<noteq> []) \<and>
   selectedTenses (initial_state\<lparr>selectedTenses := [lit ''Present Simple'']\<rparr>) = [lit ''Present Simple''] \<and>
   [lit ''Present Simple''] \<noteq> [] \<and>
   selectedThemes (initial_state\<lparr>selectedTenses := [lit ''Present Simple'']\<rparr>) = [] \<and>
   numSentences (initial_state\<lparr>selectedTenses := [lit ''Present Simple'']\<rparr>) = Num 5 \<and>
   currentPage (fst (handleStartPractice mixed_service
      (initial_state\<lparr>selectedTenses := [lit ''Present Simple'']\<rparr>))) = Practice \<and>
   sentencesData (fst (handleStartPractice mixed_service
      (initial_state\<lparr>selectedTenses := [lit ''Present Simple'']\<rparr>))) \<noteq> [] \<and>
   match_line (lit ''a [b] [c]'') = Some (lit ''a [b]'', lit ''c'') \<and>
   match_line (lit ''a [b]c]'') = Some (lit ''a'', lit ''b]c'')"
proof -
  let ?st = "initial_state\<lparr>selectedTenses := [lit ''Present Simple'']\<rparr>"
  have f: "first_text (ApiResult (Some [Candidate (Some (Content (Some [mixed_text])))])) = Some mixed_text"
    by (simp add: first_text_def)
  have m: "mixed_service (gen_prompt (chosenTenses [lit ''Present Simple'']) [] (Num 5)) =
             RespOk (ApiResult (Some [Candidate (Some (Content (Some [mixed_text])))]))"
    by (simp add: mixed_service_def ok_text_def)
  have n: "(1::int) \<le> 5" by simp
  have l1: "lit ''no tag here'' \<in> set (split_nl (trim mixed_text))"
    and l2: "lit ''B [Present Simple]'' \<in> set (split_nl (trim mixed_text))"
    by (simp_all add: mixed_lines(1))
  note m1 = mixed_lines(2) and m2 = mixed_lines(3) and m3 = mixed_lines(4) and m4 = mixed_lines(5)
  have u: "trim (lit ''B'') \<notin> {}" by simp
  have s1: "selectedTenses ?st = [lit ''Present Simple'']" and s2: "[lit ''Present Simple''] \<noteq> []"
    and s3: "selectedThemes ?st = []" and s4: "numSentences ?st = Num 5"
    by (simp_all add: initial_state_def)
  note inst = malformed_lines_dropped_positive_count
    [where fetch = mixed_service and tenses = "[lit ''Present Simple'']" and themes = "[]"
       and used = "{}" and s = initial_state, OF m f n]
  note i1 = inst [THEN conjunct1] and i2 = inst [THEN conjunct2, THEN conjunct1]
  have some: "\<exists>l\<in>set (split_nl (trim mixed_text)). \<exists>g1 g2. match_line l = Some (g1, g2) \<and> trim g1 \<notin> {}"
    using l2 m2 u by blast
  from i1 some
  have r: "\<exists>items. fst (generateSentences mixed_service [lit ''Present Simple''] [] (Num 5) {} initial_state)
              = Some items \<and> items \<noteq> []" by blast
  have any: "\<exists>l\<in>set (split_nl (trim mixed_text)). match_line l \<noteq> None"
    using l2 m2 by auto
  from i2 [rule_format, of ?st] s1 s2 s3 s4 any
  have p: "currentPage (fst (handleStartPractice mixed_service ?st)) = Practice"
    and d: "sentencesData (fst (handleStartPractice mixed_service ?st)) \<noteq> []" by blast+
  show ?thesis by (intro conjI m f n l1 m1 l2 m2 u r s1 s2 s3 s4 p d m3 m4)
qed

end
